theory Spec2Isabelle
  imports Main "HOL-Library.AList" "HOL-Library.Sublist" "HOL-Library.Word"
begin

section \<open>The host the generator runs on\<close>

text \<open>
  \<open>SupabaseProjectGenerator\<close> (src/core/main.py) works on the host through the
  file system, TCP sockets and the external container command. The host is an explicit
  state that every operation takes and returns:
  \<^item> \<open>fs\<close>: the file system, a map from a path as the program spells it to a directory
    or a regular file with its text (no links: two spellings are two files);
  \<^item> \<open>occupied\<close>: the TCP ports on which \<open>bind\<close> fails with \<open>OSError\<close>;
  \<^item> \<open>on_path\<close>: the executables \<open>shutil.which\<close> finds;
  \<^item> \<open>ext\<close>: whatever state the container runtime keeps;
  \<^item> \<open>trace\<close>: the commands handed to \<open>subprocess.run\<close> so far, with their working
    directory, oldest first.
  Python exceptions are values of type \<open>exn\<close>; a function that may raise returns the
  host together with \<open>Inl\<close> the exception or \<open>Inr\<close> its result. The logger (an
  in-memory buffer echoed to the console) is not part of the state.
\<close>

datatype node = Dir | File string

datatype exn =
    ValueError string
  | Exception string
  | OverflowError string
  | OSError string
  | KeyError string

text \<open>A string between single quotes, as \<open>repr\<close> shows a plain one.\<close>

definition quoted :: "string \<Rightarrow> string" where
  "quoted s = [CHR 0x27] @ s @ [CHR 0x27]"

text \<open>\<open>str(e)\<close> of an exception.\<close>

fun exn_str :: "exn \<Rightarrow> string" where
  "exn_str (ValueError m) = m"
| "exn_str (Exception m) = m"
| "exn_str (OverflowError m) = m"
| "exn_str (OSError m) = m"
| "exn_str (KeyError k) = quoted k"

record 'e world =
  fs :: "string \<rightharpoonup> node"
  occupied :: "int set"
  on_path :: "string set"
  ext :: 'e
  trace :: "(string list \<times> string) list"

section \<open>Port allocation\<close>

text \<open>
  \<open>socket.bind(('', port))\<close>: a port outside 0..65535 raises \<open>OverflowError\<close> (which is
  not an \<open>OSError\<close>); a port that cannot be bound raises \<open>OSError\<close>; otherwise the
  socket holds the port until it is closed.
\<close>

definition socket_bind :: "'e world \<Rightarrow> int \<Rightarrow> 'e world \<times> (exn + unit)" where
  "socket_bind w port =
     (if port < 0 \<or> 65535 < port then (w, Inl (OverflowError ''bind(): port must be 0-65535.''))
      else if port \<in> occupied w then (w, Inl (OSError ''[Errno 98] Address already in use''))
      else (w\<lparr>occupied := insert port (occupied w)\<rparr>, Inr ()))"

definition socket_close :: "'e world \<Rightarrow> int \<Rightarrow> 'e world" where
  "socket_close w port = w\<lparr>occupied := occupied w - {port}\<rparr>"

text \<open>
  \<open>check_port_availability\<close>: the \<open>with\<close> block closes the socket on both paths; only
  \<open>OSError\<close> is caught.
\<close>

definition check_port_availability :: "'e world \<Rightarrow> int \<Rightarrow> 'e world \<times> (exn + bool)" where
  "check_port_availability w port =
     (case socket_bind w port of
        (w', Inr _) \<Rightarrow> (socket_close w' port, Inr True)
      | (w', Inl (OSError m)) \<Rightarrow> (w', Inr False)
      | (w', Inl e) \<Rightarrow> (w', Inl e))"

text \<open>
  The \<open>while\<close> loop of \<open>find_available_ports\<close> for one service: \<open>port\<close> is the port
  about to be tested. After a failed test the port is incremented and the loop gives up
  once it exceeds \<open>base_port + 100\<close>.
\<close>

function probe :: "'e world \<Rightarrow> string \<Rightarrow> int \<Rightarrow> int \<Rightarrow> 'e world \<times> (exn + int)" where
  "probe w service base_port port =
     (case check_port_availability w port of
        (w', Inl e) \<Rightarrow> (w', Inl e)
      | (w', Inr True) \<Rightarrow> (w', Inr port)
      | (w', Inr False) \<Rightarrow>
          (if port + 1 > base_port + 100
           then (w', Inl (Exception (''Could not find available port for '' @ service @ '' service'')))
           else probe w' service base_port (port + 1)))"
  by pat_completeness auto
termination
  by (relation "measure (\<lambda>(w, service, base_port, port). nat (base_port + 101 - port))") auto

text \<open>
  The \<open>for\<close> loop over \<open>base_ports.items()\<close>; a dict is an association list in
  insertion order, and \<open>available_ports[service] = port\<close> is \<open>AList.update\<close>.
\<close>

fun allocate_loop ::
  "'e world \<Rightarrow> (string \<times> int) list \<Rightarrow> (string \<times> int) list \<Rightarrow> 'e world \<times> (exn + (string \<times> int) list)" where
  "allocate_loop w [] available_ports = (w, Inr available_ports)"
| "allocate_loop w ((service, base_port) # rest) available_ports =
     (case probe w service base_port base_port of
        (w', Inl e) \<Rightarrow> (w', Inl e)
      | (w', Inr port) \<Rightarrow> allocate_loop w' rest (AList.update service port available_ports))"

definition find_available_ports ::
  "'e world \<Rightarrow> (string \<times> int) list \<Rightarrow> 'e world \<times> (exn + (string \<times> int) list)" where
  "find_available_ports w base_ports = allocate_loop w base_ports []"

text \<open>A port on which \<open>bind\<close> succeeds.\<close>

definition bindable :: "'e world \<Rightarrow> int \<Rightarrow> bool" where
  "bindable w p \<longleftrightarrow> 0 \<le> p \<and> p \<le> 65535 \<and> p \<notin> occupied w"

text \<open>Some port of the probe window of a base port can be bound.\<close>

definition window_has_free :: "'e world \<Rightarrow> int \<Rightarrow> bool" where
  "window_has_free w base_port \<longleftrightarrow> 0 \<le> base_port \<and> (\<exists>p \<in> {base_port .. base_port + 100}. bindable w p)"

definition base_ports :: "(string \<times> int) list" where
  "base_ports =
     [(''studio'', 3000), (''kong'', 8000), (''auth'', 9999), (''rest'', 3001),
      (''realtime'', 4000), (''storage'', 5000), (''meta'', 8080), (''functions'', 54321),
      (''analytics'', 4001), (''vector'', 9001)]"

section \<open>Credential issuance\<close>

text \<open>
  \<open>secrets.token_urlsafe(n)\<close> is \<open>base64.urlsafe_b64encode(token_bytes(n))\<close> with the
  trailing \<open>=\<close> padding stripped. The random bytes come from the operating system; they
  are an input of the model.
\<close>

type_synonym byte = "8 word"

definition b64_alphabet :: string where
  "b64_alphabet = ''ABCDEFGHIJKLMNOPQRSTUVWXYZabcdefghijklmnopqrstuvwxyz0123456789-_''"

definition b64_char :: "nat \<Rightarrow> char" where
  "b64_char n = b64_alphabet ! n"

fun urlsafe_b64encode :: "byte list \<Rightarrow> string" where
  "urlsafe_b64encode [] = []"
| "urlsafe_b64encode [a] =
     [b64_char (unat a div 4), b64_char (unat a mod 4 * 16), CHR ''='', CHR ''='']"
| "urlsafe_b64encode [a, b] =
     [b64_char (unat a div 4), b64_char (unat a mod 4 * 16 + unat b div 16),
      b64_char (unat b mod 16 * 4), CHR ''='']"
| "urlsafe_b64encode (a # b # c # rest) =
     [b64_char (unat a div 4), b64_char (unat a mod 4 * 16 + unat b div 16),
      b64_char (unat b mod 16 * 4 + unat c div 64), b64_char (unat c mod 64)]
     @ urlsafe_b64encode rest"

definition rstrip_char :: "char \<Rightarrow> string \<Rightarrow> string" where
  "rstrip_char c s = rev (dropWhile (\<lambda>x. x = c) (rev s))"

definition token_urlsafe :: "byte list \<Rightarrow> string" where
  "token_urlsafe tok = rstrip_char (CHR ''='') (urlsafe_b64encode tok)"

text \<open>\<open>str.lower()\<close> on the ASCII text of a token.\<close>

definition lower_char :: "char \<Rightarrow> char" where
  "lower_char c =
     (let n = (of_char c :: nat) in if 65 \<le> n \<and> n \<le> 90 then char_of (n + 32) else c)"

definition str_lower :: "string \<Rightarrow> string" where
  "str_lower s = map lower_char s"

text \<open>\<open>s.replace(old, new)\<close> for a non-empty \<open>old\<close>: every occurrence, left to right.\<close>

function str_replace :: "string \<Rightarrow> string \<Rightarrow> string \<Rightarrow> string" where
  "str_replace old new [] = []"
| "str_replace old new (c # cs) =
     (if old \<noteq> [] \<and> prefix old (c # cs)
      then new @ str_replace old new (drop (length old) (c # cs))
      else c # str_replace old new cs)"
  by pat_completeness auto
termination
  by (relation "measure (\<lambda>(old, new, s). length s)") auto

text \<open>\<open>sub in s\<close> on strings.\<close>

fun str_contains :: "string \<Rightarrow> string \<Rightarrow> bool" where
  "str_contains sub [] = (sub = [])"
| "str_contains sub (c # cs) = (prefix sub (c # cs) \<or> str_contains sub cs)"

text \<open>
  The project reference, from the 16 random bytes of \<open>token_bytes(16)\<close>; the same
  expression stands in \<open>generate_jwt_keys\<close> and in \<open>create_project\<close>.
\<close>

definition new_project_ref :: "byte list \<Rightarrow> string" where
  "new_project_ref tok =
     take 20 (str_replace ''-'' '''' (str_replace ''_'' '''' (str_lower (token_urlsafe tok))))"

text \<open>
  The payload dictionaries of \<open>generate_jwt_keys\<close>. \<open>jwt.encode\<close> (PyJWT, HS256) is a
  parameter: it takes a payload and a key and returns the token. \<open>secret_tok\<close> are the 48
  random bytes behind the secret, \<open>ref_tok\<close> the 16 behind a generated reference, \<open>now\<close>
  is \<open>int(datetime.now().timestamp())\<close>. An absent or empty \<open>project_ref\<close> is the empty
  string.
\<close>

record claims =
  iss :: string
  ref :: string
  role :: string
  iat :: int
  exp :: int

definition generate_jwt_keys ::
  "(claims \<Rightarrow> string \<Rightarrow> 't) \<Rightarrow> byte list \<Rightarrow> byte list \<Rightarrow> int \<Rightarrow> string \<Rightarrow> 't \<times> 't \<times> string" where
  "generate_jwt_keys jwt_encode secret_tok ref_tok now project_ref =
     (let secret_key = token_urlsafe secret_tok;
          project_ref = (if project_ref = [] then new_project_ref ref_tok else project_ref);
          current_time = now;
          expiry_time = current_time + (365 * 24 * 60 * 60 * 10);
          anon_payload = \<lparr>iss = ''supabase'', ref = project_ref, role = ''anon'',
                          iat = current_time, exp = expiry_time\<rparr>;
          service_payload = \<lparr>iss = ''supabase'', ref = project_ref, role = ''service_role'',
                             iat = current_time, exp = expiry_time\<rparr>;
          anon_key = jwt_encode anon_payload secret_key;
          service_key = jwt_encode service_payload secret_key
      in (anon_key, service_key, secret_key))"

section \<open>Files and paths\<close>

text \<open>
  \<open>os.path.join(a, b)\<close> on POSIX. The file operations fail where the kind of the node
  makes the system call fail; permissions, missing parent directories and the
  intermediate directories that \<open>os.makedirs\<close> creates are not part of the model.
\<close>

definition path_join :: "string \<Rightarrow> string \<Rightarrow> string" where
  "path_join a b =
     (if b \<noteq> [] \<and> hd b = CHR ''/'' then b
      else if a = [] \<or> last a = CHR ''/'' then a @ b
      else a @ ''/'' @ b)"

definition path_exists :: "'e world \<Rightarrow> string \<Rightarrow> bool" where
  "path_exists w p \<longleftrightarrow> fs w p \<noteq> None"

text \<open>\<open>os.makedirs(p, exist_ok=True)\<close>.\<close>

definition makedirs :: "'e world \<Rightarrow> string \<Rightarrow> 'e world \<times> (exn + unit)" where
  "makedirs w p =
     (case fs w p of
        Some (File _) \<Rightarrow> (w, Inl (OSError (''[Errno 17] File exists: '' @ quoted p)))
      | _ \<Rightarrow> (w\<lparr>fs := (fs w)(p \<mapsto> Dir)\<rparr>, Inr ()))"

text \<open>\<open>open(p, 'r').read()\<close> and \<open>open(p, 'w').write(s)\<close>.\<close>

definition read_text :: "'e world \<Rightarrow> string \<Rightarrow> exn + string" where
  "read_text w p =
     (case fs w p of
        Some (File s) \<Rightarrow> Inr s
      | Some Dir \<Rightarrow> Inl (OSError (''[Errno 21] Is a directory: '' @ quoted p))
      | None \<Rightarrow> Inl (OSError (''[Errno 2] No such file or directory: '' @ quoted p)))"

definition write_text :: "'e world \<Rightarrow> string \<Rightarrow> string \<Rightarrow> 'e world \<times> (exn + unit)" where
  "write_text w p s =
     (case fs w p of
        Some Dir \<Rightarrow> (w, Inl (OSError (''[Errno 21] Is a directory: '' @ quoted p)))
      | _ \<Rightarrow> (w\<lparr>fs := (fs w)(p \<mapsto> File s)\<rparr>, Inr ()))"

text \<open>\<open>shutil.rmtree(p)\<close>: the directory and every path below it.\<close>

definition below :: "string \<Rightarrow> string \<Rightarrow> bool" where
  "below p q \<longleftrightarrow> q = p \<or> prefix (if p \<noteq> [] \<and> last p = CHR ''/'' then p else p @ ''/'') q"

definition rmtree :: "'e world \<Rightarrow> string \<Rightarrow> 'e world \<times> (exn + unit)" where
  "rmtree w p =
     (case fs w p of
        Some Dir \<Rightarrow> (w\<lparr>fs := (\<lambda>q. if below p q then None else fs w q)\<rparr>, Inr ())
      | Some (File _) \<Rightarrow> (w, Inl (OSError (''[Errno 20] Not a directory: '' @ quoted p)))
      | None \<Rightarrow> (w, Inl (OSError (''[Errno 2] No such file or directory: '' @ quoted p))))"

section \<open>The project configuration and the libraries\<close>

text \<open>
  The \<open>config\<close> dictionary of \<open>create_project\<close> and its \<open>db_config\<close>, with one field per
  key. \<open>cfg_ports\<close> is the dictionary of allocated ports, in insertion order.
\<close>

record db_config =
  dbc_host :: string
  dbc_port :: string
  dbc_user :: string
  dbc_password :: string
  dbc_database :: string

record project_config =
  cfg_project_name :: string
  cfg_project_ref :: string
  cfg_machine_size :: string
  cfg_specs :: string
  cfg_machine_ip :: string
  cfg_db_config :: db_config
  cfg_anon_key :: string
  cfg_service_key :: string
  cfg_jwt_secret :: string
  cfg_created_at :: string
  cfg_ports :: "(string \<times> int) list"

text \<open>
  What \<open>json.load\<close> makes of a file: not JSON, JSON that lacks a key the reader
  subscripts, or a configuration.
\<close>

datatype loaded = NotJson | Incomplete | Config project_config

text \<open>
  What the generator is given and does not implement: its projects directory, the
  container command (\<open>runtime\<close>: given the host, the argument vector and the working
  directory it either fails to execute, \<open>Inl\<close>, or completes with return code, stdout and
  stderr, and it leaves the host in a new state), and the library functions
  \<open>jwt.encode\<close>, \<open>json.dump\<close> and \<open>json.load\<close>.
\<close>

type_synonym completed = "int \<times> string \<times> string"

record 'e env =
  projects_dir :: string
  runtime :: "'e world \<Rightarrow> string list \<Rightarrow> string \<Rightarrow> (exn + completed) \<times> 'e world"
  jwt :: "claims \<Rightarrow> string \<Rightarrow> string"
  json_dump :: "project_config \<Rightarrow> string"
  json_load :: "string \<Rightarrow> loaded"

text \<open>
  What one call of \<open>create_project\<close> draws from the operating system: the random bytes
  of its three \<open>secrets\<close> calls, the clock (as Unix seconds for the tokens and as ISO text
  for \<open>created_at\<close>) and the address \<open>get_machine_ip\<close> learns from its UDP socket, if any.
\<close>

record ambient =
  rnd_ref :: "byte list"
  rnd_secret :: "byte list"
  rnd_ref_inner :: "byte list"
  clock :: int
  clock_iso :: string
  route_ip :: "string option"

definition get_machine_ip :: "ambient \<Rightarrow> string" where
  "get_machine_ip A = (case route_ip A of Some ip \<Rightarrow> ip | None \<Rightarrow> ''127.0.0.1'')"

section \<open>The runtime bridge\<close>

text \<open>\<open>subprocess.run(cmd, cwd=cwd, capture_output=True, text=True)\<close>.\<close>

definition subprocess_run ::
  "'e env \<Rightarrow> 'e world \<Rightarrow> string list \<Rightarrow> string \<Rightarrow> 'e world \<times> (exn + completed)" where
  "subprocess_run E w cmd cwd =
     (case runtime E w cmd cwd of (r, w') \<Rightarrow> (w'\<lparr>trace := trace w @ [(cmd, cwd)]\<rparr>, r))"

text \<open>
  The \<open>for cmd in commands\<close> loop of \<open>_run_compose\<close>, with the triple
  \<open>last_rc, last_out, last_err\<close> it carries.
\<close>

fun run_commands ::
  "'e env \<Rightarrow> 'e world \<Rightarrow> string \<Rightarrow> string list list \<Rightarrow> completed \<Rightarrow> 'e world \<times> completed" where
  "run_commands E w cwd [] carried = (w, carried)"
| "run_commands E w cwd (cmd # cmds) (last_rc, last_out, last_err) =
     (case subprocess_run E w cmd cwd of
        (w', Inr (returncode, stdout, stderr)) \<Rightarrow>
          if returncode = 0 then (w', (0, stdout, stderr))
          else run_commands E w' cwd cmds (returncode, stdout, stderr)
      | (w', Inl e) \<Rightarrow> run_commands E w' cwd cmds (1, last_out, exn_str e))"

definition run_compose ::
  "'e env \<Rightarrow> 'e world \<Rightarrow> string \<Rightarrow> string list \<Rightarrow> 'e world \<times> completed" where
  "run_compose E w cwd args =
     (let commands =
            (if ''docker'' \<in> on_path w then [[''docker'', ''compose''] @ args] else []) @
            (if ''docker-compose'' \<in> on_path w then [[''docker-compose''] @ args] else [])
      in if commands = [] then (w, (1, '''', ''docker/docker-compose not found''))
         else run_commands E w cwd commands (1, '''', ''''))"

section \<open>Topology rendering\<close>

text \<open>
  An f-string is a list of pieces: literal text and the expressions it interpolates.
  Rendering goes left to right; \<open>ports['k']\<close> for a missing service raises \<open>KeyError\<close>.
  \<open>str_int\<close> is \<open>str\<close> of an integer.
\<close>

fun digits :: "nat \<Rightarrow> string" where
  "digits n = (if n < 10 then [char_of (48 + n)] else digits (n div 10) @ [char_of (48 + n mod 10)])"

definition str_int :: "int \<Rightarrow> string" where
  "str_int i = (if i < 0 then ''-'' @ digits (nat (- i)) else digits (nat i))"

datatype piece =
    Lit string
  | Port string
  | AnonKey
  | ServiceKey
  | JwtSecret
  | DbUser
  | DbPassword
  | DbHost
  | DbPort
  | ProjectName

fun render_piece :: "string \<Rightarrow> project_config \<Rightarrow> piece \<Rightarrow> exn + string" where
  "render_piece project_name config (Lit s) = Inr s"
| "render_piece project_name config (Port k) =
     (case map_of (cfg_ports config) k of None \<Rightarrow> Inl (KeyError k) | Some p \<Rightarrow> Inr (str_int p))"
| "render_piece project_name config AnonKey = Inr (cfg_anon_key config)"
| "render_piece project_name config ServiceKey = Inr (cfg_service_key config)"
| "render_piece project_name config JwtSecret = Inr (cfg_jwt_secret config)"
| "render_piece project_name config DbUser = Inr (dbc_user (cfg_db_config config))"
| "render_piece project_name config DbPassword = Inr (dbc_password (cfg_db_config config))"
| "render_piece project_name config DbHost = Inr (dbc_host (cfg_db_config config))"
| "render_piece project_name config DbPort = Inr (dbc_port (cfg_db_config config))"
| "render_piece project_name config ProjectName = Inr project_name"

fun render :: "string \<Rightarrow> project_config \<Rightarrow> piece list \<Rightarrow> exn + string" where
  "render project_name config [] = Inr []"
| "render project_name config (p # ps) =
     (case render_piece project_name config p of
        Inl e \<Rightarrow> Inl e
      | Inr s \<Rightarrow> (case render project_name config ps of Inl e \<Rightarrow> Inl e | Inr t \<Rightarrow> Inr (s @ t)))"

text \<open>
  The text of \<open>docker_compose_content\<close> in \<open>create_docker_compose\<close>, one definition per
  service block, and the text of \<open>kong_content\<close> in \<open>create_kong_config\<close>.
\<close>

definition compose_head :: "piece list" where
  \<open>compose_head =
    [Lit ''\<newline>'',
     Lit ''version: \'3.8\'\<newline>'',
     Lit ''\<newline>'',
     Lit ''services:\<newline>'']\<close>

definition studio_block :: "piece list" where
  \<open>studio_block =
    [Lit ''  studio:\<newline>'',
     Lit ''    image: supabase/studio:latest\<newline>'',
     Lit ''    ports:\<newline>'',
     Lit ''      - '', Port ''studio'', Lit '':3000\<newline>'',
     Lit ''    environment:\<newline>'',
     Lit ''      SUPABASE_URL: http://kong:'', Port ''kong'', Lit ''\<newline>'',
     Lit ''      SUPABASE_REST_URL: http://localhost:'', Port ''kong'', Lit ''/rest/v1/\<newline>'',
     Lit ''      SUPABASE_ANON_KEY: '', AnonKey, Lit ''\<newline>'',
     Lit ''      SUPABASE_SERVICE_KEY: '', ServiceKey, Lit ''\<newline>'',
     Lit ''      STUDIO_PG_META_URL: http://meta:'', Port ''meta'', Lit ''\<newline>'',
     Lit ''    \<newline>'']\<close>

definition kong_block :: "piece list" where
  \<open>kong_block =
    [Lit ''  kong:\<newline>'',
     Lit ''    image: kong:latest\<newline>'',
     Lit ''    ports:\<newline>'',
     Lit ''      - '', Port ''kong'', Lit '':8000\<newline>'',
     Lit ''    environment:\<newline>'',
     Lit ''      KONG_DATABASE: off\<newline>'',
     Lit ''      KONG_DECLARATIVE_CONFIG: /opt/kong/kong.yml\<newline>'',
     Lit ''      KONG_DNS_ORDER: LAST,A,CNAME\<newline>'',
     Lit ''      KONG_PLUGINS: request-transformer,cors,key-auth,acl,opentelemetry\<newline>'',
     Lit ''    volumes:\<newline>'',
     Lit ''      - ./kong.yml:/opt/kong/kong.yml\<newline>'',
     Lit ''    healthcheck:\<newline>'',
     Lit ''      test: ["CMD", "kong", "health"]\<newline>'',
     Lit ''      interval: 10s\<newline>'',
     Lit ''      timeout: 5s\<newline>'',
     Lit ''      retries: 5\<newline>'',
     Lit ''    \<newline>'']\<close>

definition auth_block :: "piece list" where
  \<open>auth_block =
    [Lit ''  auth:\<newline>'',
     Lit ''    image: supabase/gotrue:v2\<newline>'',
     Lit ''    ports:\<newline>'',
     Lit ''      - '', Port ''auth'', Lit '':9999\<newline>'',
     Lit ''    environment:\<newline>'',
     Lit ''      GOTRUE_API_HOST: 0.0.0.0\<newline>'',
     Lit ''      GOTRUE_API_PORT: 9999\<newline>'',
     Lit ''      API_EXTERNAL_URL: http://localhost:'', Port ''kong'', Lit ''\<newline>'',
     Lit ''      \<newline>'',
     Lit ''      GOTRUE_DB_DRIVER: postgres\<newline>'',
     Lit ''      GOTRUE_DB_DATABASE_URL: postgresql://'', DbUser, Lit '':'', DbPassword, Lit ''@'', DbHost, Lit '':'', DbPort, Lit ''/'', ProjectName, Lit ''\<newline>'',
     Lit ''      \<newline>'',
     Lit ''      GOTRUE_SITE_URL: http://localhost:'', Port ''studio'', Lit ''\<newline>'',
     Lit ''      GOTRUE_URI_ALLOW_LIST: \'*\'\<newline>'',
     Lit ''      GOTRUE_DISABLE_SIGNUP: false\<newline>'',
     Lit ''      \<newline>'',
     Lit ''      GOTRUE_JWT_ADMIN_ROLES: service_role\<newline>'',
     Lit ''      GOTRUE_JWT_AUD: authenticated\<newline>'',
     Lit ''      GOTRUE_JWT_DEFAULT_GROUP_NAME: authenticated\<newline>'',
     Lit ''      GOTRUE_JWT_EXP: 3600\<newline>'',
     Lit ''      GOTRUE_JWT_SECRET: '', JwtSecret, Lit ''\<newline>'',
     Lit ''      \<newline>'',
     Lit ''      GOTRUE_EXTERNAL_EMAIL_ENABLED: true\<newline>'',
     Lit ''      GOTRUE_MAILER_AUTOCONFIRM: true\<newline>'',
     Lit ''      GOTRUE_SMTP_HOST: localhost\<newline>'',
     Lit ''      GOTRUE_SMTP_PORT: 2500\<newline>'',
     Lit ''      GOTRUE_SMTP_USER: ""\<newline>'',
     Lit ''      GOTRUE_SMTP_PASS: ""\<newline>'',
     Lit ''      GOTRUE_SMTP_ADMIN_EMAIL: admin@example.com\<newline>'',
     Lit ''      GOTRUE_MAILER_URLPATHS_INVITE: /auth/v1/verify\<newline>'',
     Lit ''      GOTRUE_MAILER_URLPATHS_CONFIRMATION: /auth/v1/verify\<newline>'',
     Lit ''      GOTRUE_MAILER_URLPATHS_RECOVERY: /auth/v1/verify\<newline>'',
     Lit ''      GOTRUE_MAILER_URLPATHS_EMAIL_CHANGE: /auth/v1/verify\<newline>'',
     Lit ''    healthcheck:\<newline>'',
     Lit ''      test: ["CMD", "wget", "--quiet", "--tries=1", "--spider", "http://localhost:9999/health"]\<newline>'',
     Lit ''      interval: 10s\<newline>'',
     Lit ''      timeout: 5s\<newline>'',
     Lit ''      retries: 5\<newline>'',
     Lit ''    \<newline>'']\<close>

definition rest_block :: "piece list" where
  \<open>rest_block =
    [Lit ''  rest:\<newline>'',
     Lit ''    image: postgrest/postgrest:latest\<newline>'',
     Lit ''    ports:\<newline>'',
     Lit ''      - '', Port ''rest'', Lit '':3000\<newline>'',
     Lit ''    environment:\<newline>'',
     Lit ''      PGRST_DB_URI: postgresql://'', DbUser, Lit '':'', DbPassword, Lit ''@'', DbHost, Lit '':'', DbPort, Lit ''/'', ProjectName, Lit ''\<newline>'',
     Lit ''      PGRST_DB_SCHEMA: public\<newline>'',
     Lit ''      PGRST_DB_ANON_ROLE: anon\<newline>'',
     Lit ''      PGRST_JWT_SECRET: '', JwtSecret, Lit ''\<newline>'',
     Lit ''    healthcheck:\<newline>'',
     Lit ''      test: ["CMD", "wget", "--quiet", "--tries=1", "--spider", "http://localhost:3000/"]\<newline>'',
     Lit ''      interval: 10s\<newline>'',
     Lit ''      timeout: 5s\<newline>'',
     Lit ''      retries: 5\<newline>'',
     Lit ''    \<newline>'']\<close>

definition realtime_block :: "piece list" where
  \<open>realtime_block =
    [Lit ''  realtime:\<newline>'',
     Lit ''    image: supabase/realtime:latest\<newline>'',
     Lit ''    ports:\<newline>'',
     Lit ''      - '', Port ''realtime'', Lit '':4000\<newline>'',
     Lit ''    environment:\<newline>'',
     Lit ''      PORT: 4000\<newline>'',
     Lit ''      DB_HOST: '', DbHost, Lit ''\<newline>'',
     Lit ''      DB_PORT: '', DbPort, Lit ''\<newline>'',
     Lit ''      DB_NAME: '', ProjectName, Lit ''\<newline>'',
     Lit ''      DB_USER: '', DbUser, Lit ''\<newline>'',
     Lit ''      DB_PASSWORD: '', DbPassword, Lit ''\<newline>'',
     Lit ''      DB_SSL: \'false\'\<newline>'',
     Lit ''      JWT_SECRET: '', JwtSecret, Lit ''\<newline>'',
     Lit ''      REPLICATION_MODE: RLS\<newline>'',
     Lit ''      REPLICATION_POLL_INTERVAL: 100\<newline>'',
     Lit ''      SECURE_CHANNELS: \'true\'\<newline>'',
     Lit ''      SLOT_NAME: supabase_realtime_rls\<newline>'',
     Lit ''      TEMPORARY_SLOT: \'true\'\<newline>'',
     Lit ''    healthcheck:\<newline>'',
     Lit ''      test: ["CMD", "curl", "-f", "http://localhost:4000/api/health"]\<newline>'',
     Lit ''      interval: 10s\<newline>'',
     Lit ''      timeout: 5s\<newline>'',
     Lit ''      retries: 5\<newline>'',
     Lit ''    \<newline>'']\<close>

definition storage_block :: "piece list" where
  \<open>storage_block =
    [Lit ''  storage:\<newline>'',
     Lit ''    image: supabase/storage-api:latest\<newline>'',
     Lit ''    ports:\<newline>'',
     Lit ''      - '', Port ''storage'', Lit '':5000\<newline>'',
     Lit ''    environment:\<newline>'',
     Lit ''      ANON_KEY: '', AnonKey, Lit ''\<newline>'',
     Lit ''      SERVICE_KEY: '', ServiceKey, Lit ''\<newline>'',
     Lit ''      POSTGREST_URL: http://rest:3000\<newline>'',
     Lit ''      PGRST_JWT_SECRET: '', JwtSecret, Lit ''\<newline>'',
     Lit ''      DATABASE_URL: postgresql://'', DbUser, Lit '':'', DbPassword, Lit ''@'', DbHost, Lit '':'', DbPort, Lit ''/'', ProjectName, Lit ''\<newline>'',
     Lit ''      FILE_SIZE_LIMIT: 52428800\<newline>'',
     Lit ''      STORAGE_BACKEND: file\<newline>'',
     Lit ''      FILE_STORAGE_BACKEND_PATH: /var/lib/storage\<newline>'',
     Lit ''      TENANT_ID: stub\<newline>'',
     Lit ''      SKIP_API_HOST_CHECK: true\<newline>'',
     Lit ''      REGION: stub\<newline>'',
     Lit ''    volumes:\<newline>'',
     Lit ''      - ./storage:/var/lib/storage\<newline>'',
     Lit ''    healthcheck:\<newline>'',
     Lit ''      test: ["CMD", "wget", "--quiet", "--tries=1", "--spider", "http://localhost:5000/status"]\<newline>'',
     Lit ''      interval: 10s\<newline>'',
     Lit ''      timeout: 5s\<newline>'',
     Lit ''      retries: 5\<newline>'',
     Lit ''    \<newline>'']\<close>

definition meta_block :: "piece list" where
  \<open>meta_block =
    [Lit ''  meta:\<newline>'',
     Lit ''    image: supabase/postgres-meta:latest\<newline>'',
     Lit ''    ports:\<newline>'',
     Lit ''      - '', Port ''meta'', Lit '':8080\<newline>'',
     Lit ''    environment:\<newline>'',
     Lit ''      PG_META_PORT: 8080\<newline>'',
     Lit ''      PG_META_DB_HOST: '', DbHost, Lit ''\<newline>'',
     Lit ''      PG_META_DB_PORT: '', DbPort, Lit ''\<newline>'',
     Lit ''      PG_META_DB_NAME: '', ProjectName, Lit ''\<newline>'',
     Lit ''      PG_META_DB_USER: '', DbUser, Lit ''\<newline>'',
     Lit ''      PG_META_DB_PASSWORD: '', DbPassword, Lit ''\<newline>'',
     Lit ''    healthcheck:\<newline>'',
     Lit ''      test: ["CMD", "wget", "--quiet", "--tries=1", "--spider", "http://localhost:8080/health"]\<newline>'',
     Lit ''      interval: 10s\<newline>'',
     Lit ''      timeout: 5s\<newline>'',
     Lit ''      retries: 5\<newline>'',
     Lit ''    \<newline>'']\<close>

definition functions_block :: "piece list" where
  \<open>functions_block =
    [Lit ''  functions:\<newline>'',
     Lit ''    image: supabase/edge-runtime:latest\<newline>'',
     Lit ''    ports:\<newline>'',
     Lit ''      - '', Port ''functions'', Lit '':8081\<newline>'',
     Lit ''    environment:\<newline>'',
     Lit ''      SUPABASE_URL: http://kong:'', Port ''kong'', Lit ''\<newline>'',
     Lit ''      SUPABASE_ANON_KEY: '', AnonKey, Lit ''\<newline>'',
     Lit ''      SUPABASE_SERVICE_KEY: '', ServiceKey, Lit ''\<newline>'',
     Lit ''      SUPABASE_DB_URL: postgresql://'', DbUser, Lit '':'', DbPassword, Lit ''@'', DbHost, Lit '':'', DbPort, Lit ''/'', ProjectName, Lit ''\<newline>'',
     Lit ''    volumes:\<newline>'',
     Lit ''      - ./functions:/home/deno/functions:Z\<newline>'',
     Lit ''    healthcheck:\<newline>'',
     Lit ''      test: ["CMD", "curl", "-f", "http://localhost:8081/status"]\<newline>'',
     Lit ''      interval: 10s\<newline>'',
     Lit ''      timeout: 5s\<newline>'',
     Lit ''      retries: 5\<newline>'',
     Lit ''    \<newline>'']\<close>

definition analytics_block :: "piece list" where
  \<open>analytics_block =
    [Lit ''  analytics:\<newline>'',
     Lit ''    image: supabase/logflare:latest\<newline>'',
     Lit ''    ports:\<newline>'',
     Lit ''      - '', Port ''analytics'', Lit '':4000\<newline>'',
     Lit ''    environment:\<newline>'',
     Lit ''      LOGFLARE_NODE_HOST: 127.0.0.1\<newline>'',
     Lit ''      DB_HOST: '', DbHost, Lit ''\<newline>'',
     Lit ''      DB_PORT: '', DbPort, Lit ''\<newline>'',
     Lit ''      DB_NAME: '', ProjectName, Lit ''\<newline>'',
     Lit ''      DB_USER: '', DbUser, Lit ''\<newline>'',
     Lit ''      DB_PASSWORD: '', DbPassword, Lit ''\<newline>'',
     Lit ''      LOGFLARE_API_KEY: '', JwtSecret, Lit ''\<newline>'',
     Lit ''      LOGFLARE_SINGLE_TENANT: true\<newline>'',
     Lit ''      LOGFLARE_SUPABASE_MODE: true\<newline>'',
     Lit ''    healthcheck:\<newline>'',
     Lit ''      test: ["CMD", "curl", "-f", "http://localhost:4000/health"]\<newline>'',
     Lit ''      interval: 10s\<newline>'',
     Lit ''      timeout: 5s\<newline>'',
     Lit ''      retries: 5\<newline>'',
     Lit ''    \<newline>'']\<close>

definition vector_block :: "piece list" where
  \<open>vector_block =
    [Lit ''  vector:\<newline>'',
     Lit ''    image: timberio/vector:latest\<newline>'',
     Lit ''    ports:\<newline>'',
     Lit ''      - '', Port ''vector'', Lit '':9001\<newline>'',
     Lit ''    \<newline>'',
     Lit ''volumes:\<newline>'',
     Lit ''  storage:\<newline>'']\<close>

definition docker_compose_template :: "piece list" where
  "docker_compose_template =
     compose_head @ studio_block @ kong_block @ auth_block @
     rest_block @ realtime_block @ storage_block @ meta_block @
     functions_block @ analytics_block @ vector_block"

definition kong_content :: string where
  \<open>kong_content = concat
    [''\<newline>'',
     ''_format_version: "1.1"\<newline>'',
     ''\<newline>'',
     ''services:\<newline>'',
     ''  - name: auth-v1\<newline>'',
     ''    url: http://auth:9999/verify\<newline>'',
     ''    routes:\<newline>'',
     ''      - name: auth-v1-routes\<newline>'',
     ''        paths:\<newline>'',
     ''          - /auth/v1/*\<newline>'',
     ''        strip_path: true\<newline>'',
     ''    \<newline>'',
     ''  - name: rest-v1\<newline>'',
     ''    url: http://rest:3000/\<newline>'',
     ''    routes:\<newline>'',
     ''      - name: rest-v1-routes\<newline>'',
     ''        paths:\<newline>'',
     ''          - /rest/v1/*\<newline>'',
     ''        strip_path: true\<newline>'',
     ''    \<newline>'',
     ''  - name: realtime-v1\<newline>'',
     ''    url: http://realtime:4000/socket/\<newline>'',
     ''    routes:\<newline>'',
     ''      - name: realtime-v1-routes\<newline>'',
     ''        paths:\<newline>'',
     ''          - /realtime/v1/*\<newline>'',
     ''        strip_path: true\<newline>'',
     ''    \<newline>'',
     ''  - name: storage-v1\<newline>'',
     ''    url: http://storage:5000/\<newline>'',
     ''    routes:\<newline>'',
     ''      - name: storage-v1-routes\<newline>'',
     ''        paths:\<newline>'',
     ''          - /storage/v1/*\<newline>'',
     ''        strip_path: true\<newline>'',
     ''    \<newline>'',
     ''  - name: functions-v1\<newline>'',
     ''    url: http://functions:8081/\<newline>'',
     ''    routes:\<newline>'',
     ''      - name: functions-v1-routes\<newline>'',
     ''        paths:\<newline>'',
     ''          - /functions/v1/*\<newline>'',
     ''        strip_path: true\<newline>'']\<close>

section \<open>Writing the topology files\<close>

definition create_kong_config ::
  "'e world \<Rightarrow> string \<Rightarrow> project_config \<Rightarrow> 'e world \<times> (exn + unit)" where
  "create_kong_config w project_path config =
     write_text w (path_join project_path ''kong.yml'') kong_content"

definition create_docker_compose ::
  "'e world \<Rightarrow> string \<Rightarrow> string \<Rightarrow> project_config \<Rightarrow> 'e world \<times> (exn + unit)" where
  "create_docker_compose w project_path project_name config =
     (case render project_name config docker_compose_template of
        Inl e \<Rightarrow> (w, Inl e)
      | Inr docker_compose_content \<Rightarrow>
          (case write_text w (path_join project_path ''docker-compose.yml'') docker_compose_content of
             (w', Inl e) \<Rightarrow> (w', Inl e)
           | (w', Inr _) \<Rightarrow> create_kong_config w' project_path config))"

section \<open>Lifecycle operations\<close>

text \<open>
  \<open>start_project\<close>, \<open>stop_project\<close> and \<open>delete_project\<close> return the triple
  \<open>(success, stdout, stderr)\<close>. Each is a \<open>try\<close> block, the \<open>_body\<close>, whose
  \<open>except Exception\<close> handler turns an exception into a failure triple.
\<close>

type_synonym outcome = "bool \<times> string \<times> string"

definition str_join :: "string \<Rightarrow> string list \<Rightarrow> string" where
  "str_join sep xs = (case xs of [] \<Rightarrow> [] | x # rest \<Rightarrow> x @ concat (map (\<lambda>y. sep @ y) rest))"

text \<open>
  The inner \<open>try\<close> block of \<open>start_project\<close>: the image tag of the auth service is
  rewritten in place; whatever goes wrong is swallowed.
\<close>

definition migrate_gotrue :: "'e world \<Rightarrow> string \<Rightarrow> 'e world" where
  "migrate_gotrue w compose_file =
     (case read_text w compose_file of
        Inl e \<Rightarrow> w
      | Inr compose_text \<Rightarrow>
          if str_contains ''supabase/gotrue:latest'' compose_text
          then fst (write_text w compose_file
                 (str_replace ''supabase/gotrue:latest'' ''supabase/gotrue:v2'' compose_text))
          else w)"

definition start_project_body :: "'e env \<Rightarrow> 'e world \<Rightarrow> string \<Rightarrow> 'e world \<times> (exn + outcome)" where
  "start_project_body E w project_name =
     (let project_path = path_join (projects_dir E) project_name in
      if \<not> path_exists w project_path
      then (w, Inr (False, '''', ''Project path not found: '' @ project_path))
      else
        let compose_file = path_join project_path ''docker-compose.yml'' in
        if \<not> path_exists w compose_file
        then (w, Inr (False, '''', ''docker-compose.yml not found''))
        else
          let w1 = migrate_gotrue w compose_file in
          (case run_compose E w1 project_path [''pull''] of
             (w2, pulled) \<Rightarrow>
               (case run_compose E w2 project_path [''up'', ''-d''] of
                  (w3, (rc, out, err)) \<Rightarrow> (w3, Inr (rc = 0, out, err)))))"

definition start_project :: "'e env \<Rightarrow> 'e world \<Rightarrow> string \<Rightarrow> 'e world \<times> (exn + outcome)" where
  "start_project E w project_name =
     (case start_project_body E w project_name of
        (w', Inr r) \<Rightarrow> (w', Inr r)
      | (w', Inl e) \<Rightarrow>
          (w', Inr (False, '''', ''Error starting project '' @ project_name @ '': '' @ exn_str e)))"

definition stop_project_body :: "'e env \<Rightarrow> 'e world \<Rightarrow> string \<Rightarrow> 'e world \<times> (exn + outcome)" where
  "stop_project_body E w project_name =
     (let project_path = path_join (projects_dir E) project_name in
      if \<not> path_exists w project_path
      then (w, Inr (False, '''', ''Project path not found: '' @ project_path))
      else
        let compose_file = path_join project_path ''docker-compose.yml'' in
        if \<not> path_exists w compose_file
        then (w, Inr (False, '''', ''docker-compose.yml not found''))
        else
          (case run_compose E w project_path [''down''] of
             (w1, (rc, out, err)) \<Rightarrow> (w1, Inr (rc = 0, out, err))))"

definition stop_project :: "'e env \<Rightarrow> 'e world \<Rightarrow> string \<Rightarrow> 'e world \<times> (exn + outcome)" where
  "stop_project E w project_name =
     (case stop_project_body E w project_name of
        (w', Inr r) \<Rightarrow> (w', Inr r)
      | (w', Inl e) \<Rightarrow>
          (w', Inr (False, '''', ''Error stopping project '' @ project_name @ '': '' @ exn_str e)))"

definition delete_project_body :: "'e env \<Rightarrow> 'e world \<Rightarrow> string \<Rightarrow> 'e world \<times> (exn + outcome)" where
  "delete_project_body E w project_name =
     (let project_path = path_join (projects_dir E) project_name in
      if \<not> path_exists w project_path
      then (w, Inr (False, '''', ''Project path not found: '' @ project_path))
      else
        (case stop_project E w project_name of
           (w1, stopped) \<Rightarrow>
             (case run_compose E w1 project_path [''down'', ''-v'', ''--remove-orphans''] of
                (w2, (rc, out1, err1)) \<Rightarrow>
                  (case rmtree w2 project_path of
                     (w3, removed) \<Rightarrow>
                       let (out2, err2) =
                             (case removed of
                                Inr u \<Rightarrow> (''project directory removed'', '''')
                              | Inl e \<Rightarrow> ('''', ''failed to remove project directory: '' @ exn_str e));
                           success = (rc = 0 \<and> err2 = '''');
                           combined_out = str_join ''\<newline>'' (filter (\<lambda>s. s \<noteq> []) [out1, out2]);
                           combined_err = str_join ''\<newline>'' (filter (\<lambda>s. s \<noteq> []) [err1, err2])
                       in (w3, Inr (success, combined_out, combined_err))))))"

definition delete_project :: "'e env \<Rightarrow> 'e world \<Rightarrow> string \<Rightarrow> 'e world \<times> (exn + outcome)" where
  "delete_project E w project_name =
     (case delete_project_body E w project_name of
        (w', Inr r) \<Rightarrow> (w', Inr r)
      | (w', Inl e) \<Rightarrow>
          (w', Inr (False, '''', ''Error deleting project '' @ project_name @ '': '' @ exn_str e)))"

text \<open>
  \<open>create_project\<close>. It raises \<open>ValueError\<close> for a name in use and for an unknown
  machine size; an exception of the port allocation is re-raised as \<open>ValueError\<close>; any
  other exception passes through. The outcome of the final \<open>start_project\<close> is ignored.
\<close>

definition valid_machine_sizes :: "string list" where
  "valid_machine_sizes = [''small'', ''medium'', ''large'', ''xlarge'']"

definition create_project ::
  "'e env \<Rightarrow> ambient \<Rightarrow> 'e world \<Rightarrow> string \<Rightarrow> string \<Rightarrow> string \<Rightarrow> string \<Rightarrow> string \<Rightarrow> string \<Rightarrow> string
     \<Rightarrow> 'e world \<times> (exn + string)" where
  "create_project E A w project_name machine_size specs db_host db_port db_user db_password =
     (let project_path = path_join (projects_dir E) project_name in
      if path_exists w project_path
      then (w, Inl (ValueError (''Project '' @ quoted project_name @
                      '' already exists. Please choose a different name.'')))
      else if machine_size \<notin> set valid_machine_sizes
      then (w, Inl (ValueError (''Invalid machine size. Choose from: '' @
                      str_join '', '' valid_machine_sizes)))
      else
        (case makedirs w project_path of
           (w1, Inl e) \<Rightarrow> (w1, Inl e)
         | (w1, Inr made) \<Rightarrow>
             let project_ref = new_project_ref (rnd_ref A) in
             (case generate_jwt_keys (jwt E) (rnd_secret A) (rnd_ref_inner A) (clock A) project_ref of
                (anon_key, service_key, jwt_secret) \<Rightarrow>
                  let machine_ip = get_machine_ip A in
                  (case find_available_ports w1 base_ports of
                     (w2, Inl e) \<Rightarrow> (w2, Inl (ValueError (''Port allocation failed: '' @ exn_str e)))
                   | (w2, Inr available_ports) \<Rightarrow>
                       let db_config = \<lparr>dbc_host = db_host, dbc_port = db_port, dbc_user = db_user,
                                         dbc_password = db_password, dbc_database = project_name\<rparr>;
                           config = \<lparr>cfg_project_name = project_name, cfg_project_ref = project_ref,
                                      cfg_machine_size = machine_size, cfg_specs = specs,
                                      cfg_machine_ip = machine_ip, cfg_db_config = db_config,
                                      cfg_anon_key = anon_key, cfg_service_key = service_key,
                                      cfg_jwt_secret = jwt_secret, cfg_created_at = clock_iso A,
                                      cfg_ports = available_ports\<rparr>;
                           config_path = path_join project_path ''supabase_config.json''
                       in
                       (case write_text w2 config_path (json_dump E config) of
                          (w3, Inl e) \<Rightarrow> (w3, Inl e)
                        | (w3, Inr written) \<Rightarrow>
                            (case create_docker_compose w3 project_path project_name config of
                               (w4, Inl e) \<Rightarrow> (w4, Inl e)
                             | (w4, Inr rendered) \<Rightarrow>
                                 (case start_project E w4 project_name of
                                    (w5, started) \<Rightarrow> (w5, Inr project_path))))))))"

section \<open>Status\<close>

text \<open>
  \<open>status_project\<close> and \<open>_check_project_status\<close> of the command line (src/cli/cli.py);
  the result is the exit code, what is printed is not modelled.
\<close>

definition is_space :: "char \<Rightarrow> bool" where
  "is_space c \<longleftrightarrow> (of_char c :: nat) \<in> {9, 10, 11, 12, 13, 28, 29, 30, 31, 32}"

definition str_strip :: "string \<Rightarrow> string" where
  "str_strip s = rev (dropWhile is_space (rev (dropWhile is_space s)))"

definition check_project_status :: "'e env \<Rightarrow> 'e world \<Rightarrow> string \<Rightarrow> 'e world \<times> bool" where
  "check_project_status E w project_name =
     (let project_path = path_join (projects_dir E) project_name;
          compose_file = path_join project_path ''docker-compose.yml''
      in if \<not> path_exists w compose_file then (w, False)
         else
           (case subprocess_run E w
                   [''docker'', ''compose'', ''ps'', ''--services'', ''--filter'', ''status=running'']
                   project_path of
              (w', Inr (returncode, stdout, stderr)) \<Rightarrow> (w', returncode = 0 \<and> str_strip stdout \<noteq> [])
            | (w', Inl e) \<Rightarrow> (w', False)))"

definition status_project :: "'e env \<Rightarrow> 'e world \<Rightarrow> string \<Rightarrow> 'e world \<times> int" where
  "status_project E w name =
     (let project_path = path_join (projects_dir E) name;
          config_path = path_join project_path ''supabase_config.json''
      in if \<not> path_exists w config_path then (w, 1)
         else
           (case read_text w config_path of
              Inl e \<Rightarrow> (w, 1)
            | Inr text \<Rightarrow>
                (case json_load E text of
                   NotJson \<Rightarrow> (w, 1)
                 | Incomplete \<Rightarrow> (case check_project_status E w name of (w', status) \<Rightarrow> (w', 1))
                 | Config config \<Rightarrow> (case check_project_status E w name of (w', status) \<Rightarrow> (w', 0)))))"

text \<open>
  The container command leaves the file at path \<open>p\<close> as it is, whatever it is asked to
  run.
\<close>

definition runtime_keeps :: "'e env \<Rightarrow> string \<Rightarrow> bool" where
  "runtime_keeps E p \<longleftrightarrow> (\<forall>w cmd cwd. fs (snd (runtime E w cmd cwd)) p = fs w p)"

section \<open>Concrete hosts for the examples\<close>

definition bare_host :: "int set \<Rightarrow> unit world" where
  "bare_host occ = \<lparr>fs = Map.empty, occupied = occ, on_path = {}, ext = (), trace = []\<rparr>"


text \<open>A stand-in for a token codec: the token is the payload with its key.\<close>

definition pair_encode :: "claims \<Rightarrow> string \<Rightarrow> claims \<times> string" where
  "pair_encode p k = (p, k)"

definition pair_decode :: "claims \<times> string \<Rightarrow> string \<Rightarrow> claims option" where
  "pair_decode t k = (if snd t = k then Some (fst t) else None)"

text \<open>
  A host with both command dialects installed, and two container commands: one that
  always completes with return code 0 and no output, and one whose \<open>docker compose\<close>
  dialect completes with return code 2 while \<open>docker-compose\<close> completes with 0. Neither
  touches the host.
\<close>

definition docker_host :: "(string \<rightharpoonup> node) \<Rightarrow> unit world" where
  "docker_host files =
     \<lparr>fs = files, occupied = {}, on_path = {''docker'', ''docker-compose''}, ext = (), trace = []\<rparr>"

definition quiet_runtime :: "unit world \<Rightarrow> string list \<Rightarrow> string \<Rightarrow> (exn + completed) \<times> unit world" where
  "quiet_runtime w cmd cwd = (Inr (0, '''', ''''), w)"

definition split_runtime :: "unit world \<Rightarrow> string list \<Rightarrow> string \<Rightarrow> (exn + completed) \<times> unit world" where
  "split_runtime w cmd cwd =
     (if take 1 cmd = [''docker''] then (Inr (2, ''primary out'', ''primary err''), w)
      else (Inr (0, ''legacy out'', ''legacy err''), w))"

text \<open>Stand-ins for the libraries: a token and a dump that show what they were given.\<close>

definition toy_jwt :: "claims \<Rightarrow> string \<Rightarrow> string" where
  "toy_jwt p k = role p @ ''.'' @ ref p @ ''.'' @ k"

definition toy_dump :: "project_config \<Rightarrow> string" where
  "toy_dump c = cfg_project_name c @ '':'' @ concat (map (\<lambda>(s, p). '' '' @ s @ ''='' @ str_int p) (cfg_ports c))"

definition lab :: "(unit world \<Rightarrow> string list \<Rightarrow> string \<Rightarrow> (exn + completed) \<times> unit world) \<Rightarrow> unit env" where
  "lab rt = \<lparr>projects_dir = ''/srv'', runtime = rt, jwt = toy_jwt, json_dump = toy_dump,
              json_load = (\<lambda>t. NotJson)\<rparr>"

definition calm :: ambient where
  "calm = \<lparr>rnd_ref = [0, 0, 0, 0, 0, 0, 0, 0, 0, 0, 0, 0, 0, 0, 0, 0], rnd_secret = [1, 2, 3],
            rnd_ref_inner = [], clock = 1700000000, clock_iso = ''2023-11-14T22:13:20'',
            route_ip = None\<rparr>"

text \<open>
  The directory of a project \<open>alpha\<close> whose topology file still names the old image tag,
  and a configuration with a port for every service.
\<close>

definition alpha_files :: "string \<rightharpoonup> node" where
  "alpha_files =
     [''/srv/alpha'' \<mapsto> Dir,
      ''/srv/alpha/supabase_config.json'' \<mapsto> File ''alpha: studio=3000'',
      ''/srv/alpha/docker-compose.yml'' \<mapsto> File ''image: supabase/gotrue:latest'']"

definition alpha_config :: project_config where
  "alpha_config =
     \<lparr>cfg_project_name = ''alpha'', cfg_project_ref = ''aaaaaaaaaaaaaaaaaaaa'',
      cfg_machine_size = ''small'', cfg_specs = ''2CPU/4GB RAM'', cfg_machine_ip = ''127.0.0.1'',
      cfg_db_config = \<lparr>dbc_host = ''192.168.1.43'', dbc_port = ''5432'', dbc_user = ''postgres'',
                         dbc_password = ''your_password'', dbc_database = ''alpha''\<rparr>,
      cfg_anon_key = ''anon.aaaaaaaaaaaaaaaaaaaa.AQID'',
      cfg_service_key = ''service_role.aaaaaaaaaaaaaaaaaaaa.AQID'',
      cfg_jwt_secret = ''AQID'', cfg_created_at = ''2023-11-14T22:13:20'',
      cfg_ports = base_ports\<rparr>"
section \<open>Port allocation: properties\<close>

lemma check_port_availability_free:
  "bindable w p \<Longrightarrow> check_port_availability w p = (w, Inr True)"
  by (simp add: check_port_availability_def socket_bind_def socket_close_def bindable_def)

lemma check_port_availability_busy:
  "0 \<le> p \<Longrightarrow> p \<le> 65535 \<Longrightarrow> p \<in> occupied w \<Longrightarrow> check_port_availability w p = (w, Inr False)"
  by (simp add: check_port_availability_def socket_bind_def)

lemma check_port_availability_world: "fst (check_port_availability w p) = w"
  by (simp add: check_port_availability_def socket_bind_def socket_close_def)

declare probe.simps [simp del]

lemma probe_world: "fst (probe w s b p) = w"
proof (induction w s b p rule: probe.induct)
  case (1 w service base_port port)
  have cw: "fst (check_port_availability w port) = w" by (rule check_port_availability_world)
  show ?case
  proof (cases "check_port_availability w port")
    case (Pair w' r)
    with cw have w': "w' = w" by simp
    show ?thesis
    proof (cases r)
      case (Inl e)
      with Pair w' show ?thesis by (simp add: probe.simps [of w])
    next
      case (Inr ok)
      show ?thesis
      proof (cases ok)
        case True
        with Pair Inr w' show ?thesis by (simp add: probe.simps [of w])
      next
        case False
        show ?thesis
        proof (cases "port + 1 > base_port + 100")
          case True
          with Pair Inr False w' show ?thesis by (simp add: probe.simps [of w])
        next
          case over: False
          have "fst (probe w' service base_port (port + 1)) = w'"
            using "1.IH" Pair Inr False over by auto
          with Pair Inr False w' over
          show ?thesis by (simp add: probe.simps [of w _ _ port])
        qed
      qed
    qed
  qed
qed

lemma probe_free: "bindable w p \<Longrightarrow> probe w s b p = (w, Inr p)"
  by (simp add: probe.simps [of w s b p] check_port_availability_free)

lemma probe_busy:
  "0 \<le> p \<Longrightarrow> p \<le> 65535 \<Longrightarrow> p \<in> occupied w \<Longrightarrow>
   probe w s b p =
     (if p + 1 > b + 100
      then (w, Inl (Exception (''Could not find available port for '' @ s @ '' service'')))
      else probe w s b (p + 1))"
  by (simp add: probe.simps [of w s b p] check_port_availability_busy)

lemma probe_finds:
  "0 \<le> p \<Longrightarrow> p \<le> q \<Longrightarrow> q \<le> b + 100 \<Longrightarrow> bindable w q \<Longrightarrow>
   (\<forall>r. p \<le> r \<and> r < q \<longrightarrow> r \<in> occupied w) \<Longrightarrow> probe w s b p = (w, Inr q)"
proof (induction "nat (q - p)" arbitrary: p)
  case 0
  then have "p = q" by simp
  with 0 show ?case by (simp add: probe_free)
next
  case (Suc n)
  then have lt: "p < q" by linarith
  with Suc.prems have occ: "p \<in> occupied w" by simp
  from Suc.prems lt have hi: "p \<le> 65535" by (simp add: bindable_def)
  have "probe w s b (p + 1) = (w, Inr q)"
    using Suc.hyps Suc.prems lt by (intro Suc.hyps(1)) auto
  with probe_busy [OF Suc.prems(1) hi occ, of s b] Suc.prems lt show ?case by simp
qed

lemma probe_exhausted:
  "0 \<le> p \<Longrightarrow> p \<le> b + 100 \<Longrightarrow> b + 100 \<le> 65535 \<Longrightarrow>
   (\<forall>r. p \<le> r \<and> r \<le> b + 100 \<longrightarrow> r \<in> occupied w) \<Longrightarrow>
   probe w s b p = (w, Inl (Exception (''Could not find available port for '' @ s @ '' service'')))"
proof (induction "nat (b + 100 - p)" arbitrary: p)
  case 0
  then have "p = b + 100" by simp
  with 0 show ?case by (simp add: probe_busy)
next
  case (Suc n)
  then have lt: "p < b + 100" by linarith
  have "probe w s b (p + 1) = (w, Inl (Exception (''Could not find available port for '' @ s @ '' service'')))"
    using Suc.hyps Suc.prems lt by (intro Suc.hyps(1)) auto
  with Suc.prems lt show ?case by (simp add: probe_busy)
qed

lemma least_bindable:
  assumes "p \<le> q" "bindable w q"
  shows "\<exists>m. p \<le> m \<and> m \<le> q \<and> bindable w m \<and> (\<forall>r. p \<le> r \<and> r < m \<longrightarrow> \<not> bindable w r)"
  using assms
proof (induction "nat (q - p)" arbitrary: q rule: less_induct)
  case less
  show ?case
  proof (cases "\<exists>r. p \<le> r \<and> r < q \<and> bindable w r")
    case True
    then obtain r where r: "p \<le> r" "r < q" "bindable w r" by blast
    then have "nat (r - p) < nat (q - p)" by linarith
    from less.hyps [OF this r(1) r(3)] obtain m where
      "p \<le> m" "m \<le> r" "bindable w m" "\<forall>r. p \<le> r \<and> r < m \<longrightarrow> \<not> bindable w r" by blast
    with r show ?thesis by (intro exI [of _ m]) auto
  next
    case False
    with less.prems show ?thesis by (intro exI [of _ q]) auto
  qed
qed

lemma probe_succeeds:
  assumes "0 \<le> b" "b \<le> q" "q \<le> b + 100" "bindable w q"
  shows "\<exists>p. probe w s b b = (w, Inr p) \<and> b \<le> p \<and> p \<le> q \<and> bindable w p \<and>
             (\<forall>r. b \<le> r \<and> r < p \<longrightarrow> r \<in> occupied w)"
proof -
  from least_bindable [OF assms(2,4)] obtain m where
    m: "b \<le> m" "m \<le> q" "bindable w m" "\<forall>r. b \<le> r \<and> r < m \<longrightarrow> \<not> bindable w r" by blast
  have occ: "\<forall>r. b \<le> r \<and> r < m \<longrightarrow> r \<in> occupied w"
  proof (intro allI impI)
    fix r assume r: "b \<le> r \<and> r < m"
    with m have "\<not> bindable w r" by simp
    moreover from r m assms have "0 \<le> r" "r \<le> 65535" by (auto simp: bindable_def)
    ultimately show "r \<in> occupied w" by (simp add: bindable_def)
  qed
  from m assms have "probe w s b b = (w, Inr m)"
    by (intro probe_finds occ) auto
  with m occ show ?thesis by auto
qed

lemma allocate_loop_world: "fst (allocate_loop w bs acc) = w"
proof (induction bs arbitrary: acc)
  case Nil
  show ?case by simp
next
  case (Cons sb bs)
  obtain s b where sb: "sb = (s, b)" by (cases sb)
  obtain w' r where pr: "probe w s b b = (w', r)" by (cases "probe w s b b")
  with probe_world [of w s b b] have "w' = w" by simp
  with pr sb Cons.IH show ?case by (cases r) simp_all
qed

lemma allocate_loop_succeeds:
  assumes "\<forall>(s, b) \<in> set bs. 0 \<le> b \<and> (\<exists>p. b \<le> p \<and> p \<le> b + 100 \<and> bindable w p)"
  shows "\<exists>ports. allocate_loop w bs acc = (w, Inr ports)"
  using assms
proof (induction bs arbitrary: acc)
  case Nil
  show ?case by simp
next
  case (Cons sb bs)
  obtain s b where sb: "sb = (s, b)" by (cases sb)
  with Cons.prems obtain q where "0 \<le> b" "b \<le> q" "q \<le> b + 100" "bindable w q" by auto
  from probe_succeeds [OF this] obtain p where "probe w s b b = (w, Inr p)" by blast
  moreover from Cons.prems have "\<forall>(s, b) \<in> set bs. 0 \<le> b \<and> (\<exists>p. b \<le> p \<and> p \<le> b + 100 \<and> bindable w p)"
    by simp
  ultimately show ?case using Cons.IH sb by simp
qed

lemma allocate_loop_keys:
  "allocate_loop w bs acc = (w', Inr ports) \<Longrightarrow> distinct (map fst bs) \<Longrightarrow>
   fst ` set bs \<inter> fst ` set acc = {} \<Longrightarrow> map fst ports = map fst acc @ map fst bs"
proof (induction bs arbitrary: acc w)
  case Nil
  then show ?case by simp
next
  case (Cons sb bs)
  obtain s b where sb: "sb = (s, b)" by (cases sb)
  obtain w1 r where pr: "probe w s b b = (w1, r)" by (cases "probe w s b b")
  with Cons.prems(1) sb obtain p where r: "r = Inr p" by (cases r) auto
  with Cons.prems(1) sb pr have run: "allocate_loop w1 bs (AList.update s p acc) = (w', Inr ports)"
    by simp
  from Cons.prems sb have fresh: "s \<notin> fst ` set acc" and d: "distinct (map fst bs)" and nin: "s \<notin> fst ` set bs"
    by auto
  from fresh have keys: "map fst (AList.update s p acc) = map fst acc @ [s]"
    by (simp add: update_keys)
  then have "fst ` set (AList.update s p acc) = insert s (fst ` set acc)"
    by (metis Un_insert_right append_Nil2 list.set(2) set_append set_map)
  with Cons.prems(3) nin sb have "fst ` set bs \<inter> fst ` set (AList.update s p acc) = {}" by auto
  from Cons.IH [OF run d this] keys sb show ?case by simp
qed

lemma allocate_loop_keeps:
  "allocate_loop w bs acc = (w', Inr ports) \<Longrightarrow> s \<notin> fst ` set bs \<Longrightarrow> map_of ports s = map_of acc s"
proof (induction bs arbitrary: acc w)
  case Nil
  then show ?case by simp
next
  case (Cons tb bs)
  obtain t b where tb: "tb = (t, b)" by (cases tb)
  obtain w1 r where pr: "probe w t b b = (w1, r)" by (cases "probe w t b b")
  with Cons.prems(1) tb obtain p where r: "r = Inr p" by (cases r) auto
  with Cons.prems(1) tb pr have run: "allocate_loop w1 bs (AList.update t p acc) = (w', Inr ports)"
    by simp
  from Cons.prems(2) tb have "s \<noteq> t" "s \<notin> fst ` set bs" by auto
  with Cons.IH [OF run] show ?case by (simp add: update_conv')
qed

lemma allocate_loop_entry:
  "allocate_loop w bs acc = (w', Inr ports) \<Longrightarrow> distinct (map fst bs) \<Longrightarrow> (s, b) \<in> set bs \<Longrightarrow>
   \<exists>p. probe w s b b = (w, Inr p) \<and> map_of ports s = Some p"
proof (induction bs arbitrary: acc)
  case Nil
  then show ?case by simp
next
  case (Cons tb bs)
  obtain t c where tb: "tb = (t, c)" by (cases tb)
  obtain w1 r where pr: "probe w t c c = (w1, r)" by (cases "probe w t c c")
  with probe_world [of w t c c] have w1: "w1 = w" by simp
  from pr Cons.prems(1) tb obtain p where r: "r = Inr p" by (cases r) auto
  with Cons.prems(1) tb pr w1 have run: "allocate_loop w bs (AList.update t p acc) = (w', Inr ports)"
    by simp
  from Cons.prems(2) tb have d: "distinct (map fst bs)" and nin: "t \<notin> fst ` set bs" by auto
  show ?case
  proof (cases "(s, b) = (t, c)")
    case True
    from allocate_loop_keeps [OF run nin] have "map_of ports t = Some p" by (simp add: update_conv')
    with True pr r w1 show ?thesis by simp
  next
    case False
    with Cons.prems(3) tb have "(s, b) \<in> set bs" by auto
    from Cons.IH [OF run d this] show ?thesis .
  qed
qed

lemma allocate_loop_raises:
  assumes "\<forall>(s, b) \<in> set pre. 0 \<le> b \<and> (\<exists>p. b \<le> p \<and> p \<le> b + 100 \<and> bindable w p)"
    and "probe w service base_port base_port = (w, Inl e)"
  shows "allocate_loop w (pre @ (service, base_port) # post) acc = (w, Inl e)"
  using assms(1)
proof (induction pre arbitrary: acc)
  case Nil
  with assms(2) show ?case by simp
next
  case (Cons sb pre)
  obtain s b where sb: "sb = (s, b)" by (cases sb)
  with Cons.prems obtain q where "0 \<le> b" "b \<le> q" "q \<le> b + 100" "bindable w q" by auto
  from probe_succeeds [OF this] obtain p where "probe w s b b = (w, Inr p)" by blast
  moreover from Cons.prems have "\<forall>(s, b) \<in> set pre. 0 \<le> b \<and> (\<exists>p. b \<le> p \<and> p \<le> b + 100 \<and> bindable w p)"
    by simp
  ultimately show ?case using Cons.IH sb by simp
qed

lemma window_has_freeD:
  "\<forall>(s, b) \<in> set bs. window_has_free w b \<Longrightarrow>
   \<forall>(s, b) \<in> set bs. 0 \<le> b \<and> (\<exists>p. b \<le> p \<and> p \<le> b + 100 \<and> bindable w p)"
proof (intro ballI)
  fix x assume a: "\<forall>(s, b) \<in> set bs. window_has_free w b" and x: "x \<in> set bs"
  obtain s b where sb: "x = (s, b)" by (cases x)
  with a x have "window_has_free w b" by auto
  then have "0 \<le> b \<and> (\<exists>p. b \<le> p \<and> p \<le> b + 100 \<and> bindable w p)"
    unfolding window_has_free_def by auto
  with sb show "case x of (s, b) \<Rightarrow> 0 \<le> b \<and> (\<exists>p. b \<le> p \<and> p \<le> b + 100 \<and> bindable w p)"
    by simp
qed

text \<open>
  Claim C1, as the code has it. When the service names are distinct and every service has
  a port it can bind among \<open>base .. base + 100\<close>, \<open>find_available_ports\<close> returns a
  map with the same services in the same order and leaves the host as it found it (every
  test socket is closed). Each service gets the lowest port from its base upwards on
  which \<open>bind\<close> succeeded. Two services get different ports whenever some port from the
  lower base up to, but excluding, the higher base is free; nothing compares the ports
  of different services with each other.
\<close>

theorem find_available_ports_lowest_free:
  assumes keys: "distinct (map fst bases)"
    and free: "\<forall>(s, b) \<in> set bases. window_has_free w b"
  shows "\<exists>ports. find_available_ports w bases = (w, Inr ports) \<and>
           map fst ports = map fst bases \<and>
           (\<forall>(s, b) \<in> set bases. \<exists>p. map_of ports s = Some p \<and> b \<le> p \<and> p \<le> b + 100 \<and>
               bindable w p \<and> (\<forall>r. b \<le> r \<and> r < p \<longrightarrow> r \<in> occupied w)) \<and>
           (\<forall>(s1, b1) \<in> set bases. \<forall>(s2, b2) \<in> set bases.
               b1 < b2 \<and> (\<exists>q \<in> {b1 ..< b2}. q \<notin> occupied w) \<longrightarrow>
               (\<exists>p1 p2. map_of ports s1 = Some p1 \<and> map_of ports s2 = Some p2 \<and> p1 < p2))"
proof -
  from allocate_loop_succeeds [OF window_has_freeD [OF free], of "[]"]
  obtain ports where run: "allocate_loop w bases [] = (w, Inr ports)" by blast
  have entry: "\<exists>p. map_of ports s = Some p \<and> b \<le> p \<and> p \<le> b + 100 \<and> bindable w p \<and>
                 (\<forall>r. b \<le> r \<and> r < p \<longrightarrow> r \<in> occupied w)"
    if sb: "(s, b) \<in> set bases" for s b
  proof -
    from allocate_loop_entry [OF run keys sb] obtain p where
      p: "probe w s b b = (w, Inr p)" "map_of ports s = Some p" by blast
    from window_has_freeD [OF free] sb obtain q where q: "0 \<le> b" "b \<le> q" "q \<le> b + 100" "bindable w q"
      by auto
    from probe_succeeds [OF q, of s] p q(3) show ?thesis by auto
  qed
  have apart: "\<exists>p1 p2. map_of ports s1 = Some p1 \<and> map_of ports s2 = Some p2 \<and> p1 < p2"
    if m1: "(s1, b1) \<in> set bases" and m2: "(s2, b2) \<in> set bases"
      and q: "b1 \<le> q" "q < b2" "q \<notin> occupied w" for s1 b1 s2 b2 q
  proof -
    from entry [OF m1] obtain p1 where p1: "map_of ports s1 = Some p1"
      "\<forall>r. b1 \<le> r \<and> r < p1 \<longrightarrow> r \<in> occupied w" by blast
    from entry [OF m2] obtain p2 where p2: "map_of ports s2 = Some p2" "b2 \<le> p2" by blast
    from p1(2) q have "p1 \<le> q" by (meson not_le)
    with q p2 have "p1 < p2" by simp
    with p1 p2 show ?thesis by blast
  qed
  have "map fst ports = map fst bases"
    using allocate_loop_keys [OF run keys] by simp
  with run entry apart show ?thesis
    unfolding find_available_ports_def by (intro exI [of _ ports]) (fastforce simp: Ball_def)
qed

text \<open>An instance: port 3000 is taken, so \<open>studio\<close> moves up and stays below \<open>kong\<close>.\<close>

theorem find_available_ports_lowest_free_witness:
  "\<exists>p1 p2. find_available_ports (bare_host {3000}) [(''studio'', 3000), (''kong'', 8000)] =
        (bare_host {3000}, Inr [(''studio'', p1), (''kong'', p2)]) \<and> p1 < p2"
proof -
  let ?w = "bare_host {3000}" and ?bp = "[(''studio'', 3000), (''kong'', 8000 :: int)]"
  have keys: "distinct (map fst ?bp)" by simp
  have "bindable ?w 3001" "bindable ?w 8000" by (simp_all add: bindable_def bare_host_def)
  then have "window_has_free ?w 3000" "window_has_free ?w 8000"
    unfolding window_has_free_def by (auto intro: bexI [of _ 3001] bexI [of _ 8000])
  then have free: "\<forall>(s, b) \<in> set ?bp. window_has_free ?w b" by simp
  from find_available_ports_lowest_free [OF keys free] obtain ports where
    run: "find_available_ports ?w ?bp = (?w, Inr ports)" and k: "map fst ports = map fst ?bp"
    and apart: "\<forall>(s1, b1) \<in> set ?bp. \<forall>(s2, b2) \<in> set ?bp.
               b1 < b2 \<and> (\<exists>q \<in> {b1 ..< b2}. q \<notin> occupied ?w) \<longrightarrow>
               (\<exists>p1 p2. map_of ports s1 = Some p1 \<and> map_of ports s2 = Some p2 \<and> p1 < p2)"
    by blast
  have "\<exists>q \<in> {3000 ..< 8000}. q \<notin> occupied ?w"
    by (rule bexI [of _ 3001]) (simp_all add: bare_host_def)
  with apart obtain p1 p2 where p: "map_of ports ''studio'' = Some p1" "map_of ports ''kong'' = Some p2" "p1 < p2"
    by fastforce
  from k obtain a b where "ports = [(''studio'', a), (''kong'', b)]"
    by (auto simp: map_eq_Cons_conv)
  with p run show ?thesis by auto
qed

text \<open>
  Claim C1 as stated fails: with the base ports of \<open>create_project\<close> and port 3000
  taken (3001 is free, so every service has a free port in its window), \<open>studio\<close>
  (base 3000) and \<open>rest\<close> (base 3001) both get port 3001.
\<close>

theorem find_available_ports_collision:
  "bindable (bare_host {3000}) 3001 \<and>
   find_available_ports (bare_host {3000}) base_ports =
     (bare_host {3000},
      Inr [(''studio'', 3001), (''kong'', 8000), (''auth'', 9999), (''rest'', 3001),
           (''realtime'', 4000), (''storage'', 5000), (''meta'', 8080), (''functions'', 54321),
           (''analytics'', 4001), (''vector'', 9001)])"
proof -
  let ?w = "bare_host {3000}"
  have b: "bindable ?w 3001" by (simp add: bindable_def bare_host_def)
  have "probe ?w s 3000 3000 = probe ?w s 3000 3001" for s
    by (simp add: probe_busy bare_host_def)
  with b have studio: "probe ?w s 3000 3000 = (?w, Inr 3001)" for s
    by (simp add: probe_free)
  have other: "probe ?w s p p = (?w, Inr p)" if "0 \<le> p" "p \<le> 65535" "p \<noteq> 3000" for s p
    using that by (intro probe_free) (simp add: bindable_def bare_host_def)
  show ?thesis
    using b by (simp add: find_available_ports_def base_ports_def studio other)
qed

text \<open>
  Claim C3, as the code has it. The probe tests the 101 ports \<open>base .. base + 100\<close>.
  When all of them are occupied for a service (with \<open>base + 100\<close> a valid port number)
  and every service before it in the map has a port it can bind in its window,
  \<open>find_available_ports\<close> raises the exception naming that service; no map is returned and
  the host is unchanged, so no test socket stays bound.
\<close>

theorem find_available_ports_exhausted:
  assumes "bases = pre @ (service, base_port) # post"
    and "\<forall>(s, b) \<in> set pre. window_has_free w b"
    and "0 \<le> base_port" and "base_port + 100 \<le> 65535"
    and "\<forall>p \<in> {base_port .. base_port + 100}. p \<in> occupied w"
  shows "find_available_ports w bases =
           (w, Inl (Exception (''Could not find available port for '' @ service @ '' service'')))"
proof -
  from assms(3-5) have "probe w service base_port base_port =
      (w, Inl (Exception (''Could not find available port for '' @ service @ '' service'')))"
    by (intro probe_exhausted) auto
  from allocate_loop_raises [OF window_has_freeD [OF assms(2)] this] assms(1)
  show ?thesis by (simp add: find_available_ports_def)
qed

text \<open>An instance: ports 3000 to 3100 are all taken.\<close>

theorem find_available_ports_exhausted_witness:
  "find_available_ports (bare_host {3000 .. 3100}) [(''studio'', 3000), (''rest'', 3001)] =
     (bare_host {3000 .. 3100}, Inl (Exception ''Could not find available port for studio service''))"
proof -
  have occ: "\<forall>p \<in> {3000 .. 3000 + 100}. p \<in> occupied (bare_host {3000 .. 3100})"
    by (simp add: bare_host_def)
  have none: "\<forall>(s, b) \<in> set ([] :: (string \<times> int) list). window_has_free (bare_host {3000 .. 3100}) b"
    by simp
  from find_available_ports_exhausted [of "[(''studio'', 3000), (''rest'', 3001)]" "[]" "''studio''" 3000
      "[(''rest'', 3001)]" "bare_host {3000 .. 3100}", OF _ none _ _ occ]
  show ?thesis by simp
qed

text \<open>
  Claim C3 as stated fails: with the 100 ports 3000 to 3099 occupied and 3100 free, the
  probe for a service based at 3000 does not raise; it returns port 3100.
\<close>

theorem find_available_ports_window_101:
  "{3000 ..< 3000 + 100} \<subseteq> occupied (bare_host {3000 .. 3099}) \<and>
   find_available_ports (bare_host {3000 .. 3099}) [(''studio'', 3000)] =
     (bare_host {3000 .. 3099}, Inr [(''studio'', 3100)])"
proof -
  let ?w = "bare_host {3000 .. 3099}"
  have "probe ?w ''studio'' 3000 3000 = (?w, Inr 3100)"
    by (rule probe_finds) (simp_all add: bindable_def bare_host_def)
  moreover have "{3000 ..< 3000 + 100} \<subseteq> occupied ?w"
    by (auto simp: bare_host_def)
  ultimately show ?thesis by (simp add: find_available_ports_def)
qed

section \<open>Credential issuance: properties\<close>

text \<open>
  Claim C6 fails on the code: the reference is cut to at most 20 characters and never
  padded. The encoding of 16 bytes has 22 characters, so as soon as three of them are
  \<open>-\<close> or \<open>_\<close> fewer than 20 are left. The token of the 16 bytes below is
  \<open>----EDJUdpi63P4BI0VniQ\<close>, and the reference has 18 characters.
\<close>

theorem new_project_ref_short:
  "new_project_ref
     [0xFB, 0xEF, 0xBE, 0x10, 0x32, 0x54, 0x76, 0x98, 0xBA, 0xDC, 0xFE, 0x01, 0x23, 0x45, 0x67, 0x89]
     = ''edjudpi63p4bi0vniq'' \<and>
   length (new_project_ref
     [0xFB, 0xEF, 0xBE, 0x10, 0x32, 0x54, 0x76, 0x98, 0xBA, 0xDC, 0xFE, 0x01, 0x23, 0x45, 0x67, 0x89])
     = 18"
  by code_simp

text \<open>
  Claim C5. For any token codec whose \<open>decode\<close> returns the payload that \<open>encode\<close> signed
  with the same key, the two tokens of \<open>generate_jwt_keys\<close> decode with the returned secret
  to payloads that differ in \<open>role\<close> only (\<open>anon\<close>, \<open>service_role\<close>): both have issuer
  \<open>supabase\<close>, the same reference, the same issued-at time \<open>now\<close> and the expiry
  \<open>now + 315360000\<close> (ten years of 365 days), and the secret is the encoding of this
  call's 48 random bytes.
\<close>

theorem generate_jwt_keys_claims:
  assumes codec: "\<And>p k. jwt_decode (jwt_encode p k) k = Some p"
    and run: "generate_jwt_keys jwt_encode secret_tok ref_tok now project_ref = (anon_key, service_key, secret_key)"
  shows "secret_key = token_urlsafe secret_tok \<and>
         (\<exists>a s. jwt_decode anon_key secret_key = Some a \<and>
                jwt_decode service_key secret_key = Some s \<and>
                role a = ''anon'' \<and> role s = ''service_role'' \<and> s = a\<lparr>role := ''service_role''\<rparr> \<and>
                iss a = ''supabase'' \<and> iss s = ''supabase'' \<and>
                ref a = (if project_ref = [] then new_project_ref ref_tok else project_ref) \<and>
                ref s = ref a \<and> iat s = iat a \<and> iat a = now \<and>
                exp a = iat a + 315360000 \<and> exp s = exp a)"
proof -
  let ?r = "if project_ref = [] then new_project_ref ref_tok else project_ref"
  let ?a = "\<lparr>iss = ''supabase'', ref = ?r, role = ''anon'', iat = now, exp = now + 315360000\<rparr>"
  let ?s = "\<lparr>iss = ''supabase'', ref = ?r, role = ''service_role'', iat = now, exp = now + 315360000\<rparr>"
  from run have k: "secret_key = token_urlsafe secret_tok"
    and a: "anon_key = jwt_encode ?a secret_key"
    and s: "service_key = jwt_encode ?s secret_key"
    by (auto simp: generate_jwt_keys_def Let_def)
  from a codec have da: "jwt_decode anon_key secret_key = Some ?a" by simp
  from s codec have ds: "jwt_decode service_key secret_key = Some ?s" by simp
  show ?thesis
    by (rule conjI [OF k], rule exI [of _ ?a], rule exI [of _ ?s]) (simp add: da ds)
qed

text \<open>An instance, with the pairing codec.\<close>

theorem generate_jwt_keys_claims_witness:
  "\<exists>a s k. generate_jwt_keys pair_encode [1, 2, 3] [] 1700000000 ''abcdefghij0123456789'' = ((a, k), (s, k), k) \<and>
     k = ''AQID'' \<and> pair_decode (a, k) k = Some a \<and> pair_decode (s, k) k = Some s \<and>
     role a = ''anon'' \<and> s = a\<lparr>role := ''service_role''\<rparr> \<and> ref a = ''abcdefghij0123456789'' \<and>
     iat a = 1700000000 \<and> exp a = 2015360000"
proof -
  have codec: "\<And>p k. pair_decode (pair_encode p k) k = Some p"
    by (simp add: pair_decode_def pair_encode_def)
  obtain x y k where run:
    "generate_jwt_keys pair_encode [1, 2, 3] [] 1700000000 ''abcdefghij0123456789'' = (x, y, k)"
    by (metis prod_cases3)
  have "b64_char 0 = CHR ''A''" "b64_char 16 = CHR ''Q''" "b64_char 8 = CHR ''I''" "b64_char 3 = CHR ''D''"
    by (simp_all add: b64_char_def b64_alphabet_def)
  then have tok: "token_urlsafe [1, 2, 3] = ''AQID''"
    by (simp add: token_urlsafe_def rstrip_char_def)
  from run have xy: "snd x = k" "snd y = k"
    by (auto simp: generate_jwt_keys_def Let_def pair_encode_def)
  from generate_jwt_keys_claims [of pair_decode pair_encode, OF codec run] tok xy
  show ?thesis
    using run by (cases x; cases y) (auto simp: pair_decode_def split: if_splits)
qed

section \<open>The runtime bridge: properties\<close>

text \<open>
  Claim C7, as the code has it. With both dialects installed, \<open>_run_compose\<close> returns the
  result of \<open>docker compose\<close> only when it completes with return code 0. When it completes
  with another return code, or fails to execute, \<open>docker-compose\<close> is run as well and its
  result is the final one whenever it completes, with return code 0 or not; when it fails
  to execute, the result is return code 1 with the stdout of \<open>docker compose\<close> (empty if
  that had failed to execute too) and the text of the exception as stderr.
\<close>

theorem run_compose_both_installed:
  assumes "''docker'' \<in> on_path w" and "''docker-compose'' \<in> on_path w"
    and "subprocess_run E w ([''docker'', ''compose''] @ args) cwd = (w1, primary)"
    and "subprocess_run E w1 ([''docker-compose''] @ args) cwd = (w2, legacy)"
  shows "run_compose E w cwd args =
     (case primary of
        Inr (rc, out, err) \<Rightarrow>
          if rc = 0 then (w1, (0, out, err))
          else (case legacy of
                  Inr (rc2, out2, err2) \<Rightarrow> (w2, (rc2, out2, err2))
                | Inl e2 \<Rightarrow> (w2, (1, out, exn_str e2)))
      | Inl e \<Rightarrow>
          (case legacy of
             Inr (rc2, out2, err2) \<Rightarrow> (w2, (rc2, out2, err2))
           | Inl e2 \<Rightarrow> (w2, (1, '''', exn_str e2))))"
  using assms
  by (auto simp: run_compose_def split: sum.splits prod.splits)

text \<open>An instance: both commands are run, in this order, and the second one decides.\<close>

theorem run_compose_both_installed_witness:
  "run_compose (lab split_runtime) (docker_host Map.empty) ''/srv/alpha'' [''down''] =
     ((docker_host Map.empty)
        \<lparr>trace := [([''docker'', ''compose'', ''down''], ''/srv/alpha''),
                   ([''docker-compose'', ''down''], ''/srv/alpha'')]\<rparr>,
      (0, ''legacy out'', ''legacy err''))"
proof -
  let ?w = "docker_host Map.empty"
  let ?w1 = "?w\<lparr>trace := [([''docker'', ''compose'', ''down''], ''/srv/alpha'')]\<rparr>"
  let ?w2 = "?w\<lparr>trace := [([''docker'', ''compose'', ''down''], ''/srv/alpha''),
                   ([''docker-compose'', ''down''], ''/srv/alpha'')]\<rparr>"
  have a: "''docker'' \<in> on_path ?w" and b: "''docker-compose'' \<in> on_path ?w"
    by (simp_all add: docker_host_def)
  have c: "subprocess_run (lab split_runtime) ?w ([''docker'', ''compose''] @ [''down'']) ''/srv/alpha'' =
             (?w1, Inr (2, ''primary out'', ''primary err''))"
    by (simp add: subprocess_run_def lab_def split_runtime_def docker_host_def)
  have d: "subprocess_run (lab split_runtime) ?w1 ([''docker-compose''] @ [''down'']) ''/srv/alpha'' =
             (?w2, Inr (0, ''legacy out'', ''legacy err''))"
    by (simp add: subprocess_run_def lab_def split_runtime_def docker_host_def)
  from run_compose_both_installed [OF a b c d] show ?thesis by simp
qed

text \<open>
  Claim C7 as stated fails: \<open>docker compose up -d\<close> completes with return code 2, and the
  bridge returns the result of \<open>docker-compose up -d\<close>, return code 0.
\<close>

theorem run_compose_masks_primary:
  "snd (subprocess_run (lab split_runtime) (docker_host Map.empty) [''docker'', ''compose'', ''up'', ''-d'']
          ''/srv/alpha'') = Inr (2, ''primary out'', ''primary err'') \<and>
   snd (run_compose (lab split_runtime) (docker_host Map.empty) ''/srv/alpha'' [''up'', ''-d'']) =
     (0, ''legacy out'', ''legacy err'')"
  by (simp add: run_compose_def subprocess_run_def lab_def split_runtime_def docker_host_def)

section \<open>Paths and what an operation leaves alone\<close>

lemma path_join_relative:
  "b \<noteq> [] \<Longrightarrow> hd b \<noteq> CHR ''/'' \<Longrightarrow>
   path_join a b = (if a = [] \<or> last a = CHR ''/'' then a else a @ ''/'') @ b"
  by (simp add: path_join_def)

lemma path_join_same_dir:
  "b \<noteq> [] \<Longrightarrow> hd b \<noteq> CHR ''/'' \<Longrightarrow> c \<noteq> [] \<Longrightarrow> hd c \<noteq> CHR ''/'' \<Longrightarrow>
   path_join a b = path_join a c \<longleftrightarrow> b = c"
  by (simp add: path_join_relative)

lemma path_join_last:
  "b \<noteq> [] \<Longrightarrow> hd b \<noteq> CHR ''/'' \<Longrightarrow> last (path_join a b) = last b"
  by (simp add: path_join_relative)

lemma compose_not_config: "path_join a ''docker-compose.yml'' \<noteq> path_join b ''supabase_config.json''"
proof
  assume "path_join a ''docker-compose.yml'' = path_join b ''supabase_config.json''"
  then have "last (path_join a ''docker-compose.yml'') = last (path_join b ''supabase_config.json'')"
    by simp
  then show False by (simp add: path_join_last)
qed

lemma kong_not_config: "path_join a ''kong.yml'' \<noteq> path_join b ''supabase_config.json''"
proof
  assume "path_join a ''kong.yml'' = path_join b ''supabase_config.json''"
  then have "last (path_join a ''kong.yml'') = last (path_join b ''supabase_config.json'')"
    by simp
  then show False by (simp add: path_join_last)
qed

lemma kong_not_compose: "path_join a ''kong.yml'' \<noteq> path_join a ''docker-compose.yml''"
  by (simp add: path_join_same_dir)

lemma write_text_frame: "q \<noteq> p \<Longrightarrow> fs (fst (write_text w p s)) q = fs w q"
  by (simp add: write_text_def split: option.splits node.splits)

lemma write_text_ok:
  "fs w p \<noteq> Some Dir \<Longrightarrow> write_text w p s = (w\<lparr>fs := (fs w)(p \<mapsto> File s)\<rparr>, Inr ())"
  by (simp add: write_text_def split: option.splits node.splits)

lemma write_text_result:
  "write_text w p s = (w', Inr u) \<Longrightarrow> w' = w\<lparr>fs := (fs w)(p \<mapsto> File s)\<rparr>"
  by (auto simp: write_text_def split: option.splits node.splits)

lemma migrate_gotrue_frame: "q \<noteq> cf \<Longrightarrow> fs (migrate_gotrue w cf) q = fs w q"
  by (simp add: migrate_gotrue_def write_text_frame split: sum.splits)

lemma subprocess_run_frame:
  "runtime_keeps E q \<Longrightarrow> fs (fst (subprocess_run E w cmd cwd)) q = fs w q"
proof -
  assume "runtime_keeps E q"
  then have "fs (snd (runtime E w cmd cwd)) q = fs w q"
    unfolding runtime_keeps_def by blast
  then show ?thesis
    by (cases "runtime E w cmd cwd") (simp add: subprocess_run_def)
qed

lemma run_commands_frame:
  "runtime_keeps E q \<Longrightarrow> fs (fst (run_commands E w cwd cmds carried)) q = fs w q"
proof (induction cmds arbitrary: w carried)
  case Nil
  show ?case by simp
next
  case (Cons cmd cmds)
  obtain rc out err where c: "carried = (rc, out, err)" by (cases carried)
  obtain w' r where run: "subprocess_run E w cmd cwd = (w', r)" by (cases "subprocess_run E w cmd cwd")
  with subprocess_run_frame [OF Cons.prems, of w cmd cwd] have keep: "fs w' q = fs w q" by simp
  show ?case
  proof (cases r)
    case (Inl e)
    with c run keep Cons.IH [OF Cons.prems] show ?thesis by simp
  next
    case (Inr res)
    obtain rc' out' err' where "res = (rc', out', err')" by (cases res)
    with Inr c run keep Cons.IH [OF Cons.prems] show ?thesis by simp
  qed
qed

lemma run_compose_frame:
  "runtime_keeps E q \<Longrightarrow> fs (fst (run_compose E w cwd args)) q = fs w q"
  by (simp add: run_compose_def Let_def run_commands_frame)

lemma start_project_frame:
  assumes "runtime_keeps E q" and "q \<noteq> path_join (path_join (projects_dir E) name) ''docker-compose.yml''"
  shows "fs (fst (start_project E w name)) q = fs w q"
proof -
  let ?pp = "path_join (projects_dir E) name"
  let ?cf = "path_join ?pp ''docker-compose.yml''"
  let ?w1 = "migrate_gotrue w ?cf"
  obtain w2 r2 where p: "run_compose E ?w1 ?pp [''pull''] = (w2, r2)" by (cases "run_compose E ?w1 ?pp [''pull'']")
  obtain w3 r3 where u: "run_compose E w2 ?pp [''up'', ''-d''] = (w3, r3)"
    by (cases "run_compose E w2 ?pp [''up'', ''-d'']")
  from run_compose_frame [OF assms(1), of ?w1 ?pp "[''pull'']"] p have "fs w2 q = fs ?w1 q" by simp
  moreover from run_compose_frame [OF assms(1), of w2 ?pp "[''up'', ''-d'']"] u have "fs w3 q = fs w2 q" by simp
  moreover from assms(2) have "fs ?w1 q = fs w q" by (rule migrate_gotrue_frame)
  ultimately have "fs w3 q = fs w q" by simp
  with p u show ?thesis
    by (cases r3) (simp add: start_project_def start_project_body_def Let_def)
qed

lemma stop_project_frame:
  assumes "runtime_keeps E q"
  shows "fs (fst (stop_project E w name)) q = fs w q"
proof -
  let ?pp = "path_join (projects_dir E) name"
  obtain w1 r1 where d: "run_compose E w ?pp [''down''] = (w1, r1)" by (cases "run_compose E w ?pp [''down'']")
  from run_compose_frame [OF assms, of w ?pp "[''down'']"] d have "fs w1 q = fs w q" by simp
  with d show ?thesis
    by (cases r1) (simp add: stop_project_def stop_project_body_def Let_def)
qed

lemma check_project_status_frame:
  assumes "runtime_keeps E q"
  shows "fs (fst (check_project_status E w name)) q = fs w q"
proof -
  let ?cmd = "[''docker'', ''compose'', ''ps'', ''--services'', ''--filter'', ''status=running'']"
  let ?pp = "path_join (projects_dir E) name"
  obtain w' r where run: "subprocess_run E w ?cmd ?pp = (w', r)" by (cases "subprocess_run E w ?cmd ?pp")
  with subprocess_run_frame [OF assms, of w ?cmd ?pp] have "fs w' q = fs w q" by simp
  with run show ?thesis
    by (cases r) (auto simp: check_project_status_def Let_def)
qed

lemma status_project_frame:
  assumes "runtime_keeps E q"
  shows "fs (fst (status_project E w name)) q = fs w q"
proof -
  obtain w' st where run: "check_project_status E w name = (w', st)"
    by (cases "check_project_status E w name")
  with check_project_status_frame [OF assms, of w name] have "fs w' q = fs w q" by simp
  with run show ?thesis
    by (simp add: status_project_def Let_def split: sum.splits loaded.splits)
qed

section \<open>Facts about the concrete hosts\<close>

lemma quiet_runtime_keeps: "runtime_keeps (lab quiet_runtime) q"
  by (simp add: runtime_keeps_def lab_def quiet_runtime_def)

lemma srv_alpha: "path_join (projects_dir (lab rt)) ''alpha'' = ''/srv/alpha''"
  by (simp add: lab_def path_join_def)

lemma srv_alpha_files:
  "path_join ''/srv/alpha'' ''supabase_config.json'' = ''/srv/alpha/supabase_config.json''"
  "path_join ''/srv/alpha'' ''docker-compose.yml'' = ''/srv/alpha/docker-compose.yml''"
  "path_join ''/srv/alpha'' ''kong.yml'' = ''/srv/alpha/kong.yml''"
  by (simp_all add: path_join_def)

section \<open>Topology rendering: properties\<close>

lemma render_total:
  "(\<forall>k. Port k \<in> set ps \<longrightarrow> k \<in> fst ` set (cfg_ports c)) \<Longrightarrow> \<exists>t. render n c ps = Inr t"
proof (induction ps)
  case Nil
  show ?case by simp
next
  case (Cons p ps)
  then obtain t where t: "render n c ps = Inr t" by auto
  have "\<exists>s. render_piece n c p = Inr s"
  proof (cases p)
    case (Port k)
    with Cons.prems have "k \<in> fst ` set (cfg_ports c)" by simp
    then have "map_of (cfg_ports c) k \<noteq> None" by (simp add: map_of_eq_None_iff)
    with Port show ?thesis by auto
  qed simp_all
  with t show ?case by auto
qed

lemma head_ports: "Port k \<notin> set compose_head"
  by (simp add: compose_head_def)

lemma studio_ports: "Port k \<in> set studio_block \<Longrightarrow> k \<in> {''studio'', ''kong'', ''meta''}"
  by (auto simp: studio_block_def)

lemma kong_ports: "Port k \<in> set kong_block \<Longrightarrow> k = ''kong''"
  by (auto simp: kong_block_def)

lemma auth_ports: "Port k \<in> set auth_block \<Longrightarrow> k \<in> {''auth'', ''kong'', ''studio''}"
  by (auto simp: auth_block_def)

lemma rest_ports: "Port k \<in> set rest_block \<Longrightarrow> k = ''rest''"
  by (auto simp: rest_block_def)

lemma realtime_ports: "Port k \<in> set realtime_block \<Longrightarrow> k = ''realtime''"
  by (auto simp: realtime_block_def)

lemma storage_ports: "Port k \<in> set storage_block \<Longrightarrow> k = ''storage''"
  by (auto simp: storage_block_def)

lemma meta_ports: "Port k \<in> set meta_block \<Longrightarrow> k = ''meta''"
  by (auto simp: meta_block_def)

lemma functions_ports: "Port k \<in> set functions_block \<Longrightarrow> k \<in> {''functions'', ''kong''}"
  by (auto simp: functions_block_def)

lemma analytics_ports: "Port k \<in> set analytics_block \<Longrightarrow> k = ''analytics''"
  by (auto simp: analytics_block_def)

lemma vector_ports: "Port k \<in> set vector_block \<Longrightarrow> k = ''vector''"
  by (auto simp: vector_block_def)

lemma template_ports:
  assumes "Port k \<in> set docker_compose_template"
  shows "k \<in> set (map fst base_ports)"
proof -
  from assms head_ports [of k] consider
    "Port k \<in> set studio_block" | "Port k \<in> set kong_block" | "Port k \<in> set auth_block" |
    "Port k \<in> set rest_block" | "Port k \<in> set realtime_block" | "Port k \<in> set storage_block" |
    "Port k \<in> set meta_block" | "Port k \<in> set functions_block" | "Port k \<in> set analytics_block" |
    "Port k \<in> set vector_block"
    unfolding docker_compose_template_def by auto
  then show ?thesis
    by cases
      (auto dest!: studio_ports kong_ports auth_ports rest_ports realtime_ports storage_ports
        meta_ports functions_ports analytics_ports vector_ports simp: base_ports_def)
qed

lemma create_docker_compose_result:
  assumes "create_docker_compose w p n c = (w', Inr u)"
  shows "\<exists>t. render n c docker_compose_template = Inr t \<and>
             w' = w\<lparr>fs := (fs w)(path_join p ''docker-compose.yml'' \<mapsto> File t,
                                 path_join p ''kong.yml'' \<mapsto> File kong_content)\<rparr>"
proof -
  from assms obtain t where t: "render n c docker_compose_template = Inr t"
    by (cases "render n c docker_compose_template") (auto simp: create_docker_compose_def)
  obtain w1 r1 where w: "write_text w (path_join p ''docker-compose.yml'') t = (w1, r1)"
    by (cases "write_text w (path_join p ''docker-compose.yml'') t")
  with assms t obtain u1 where r1: "r1 = Inr u1"
    by (cases r1) (auto simp: create_docker_compose_def)
  from write_text_result [OF w [unfolded r1]]
  have w1: "w1 = w\<lparr>fs := (fs w)(path_join p ''docker-compose.yml'' \<mapsto> File t)\<rparr>" .
  from assms t w r1 have "write_text w1 (path_join p ''kong.yml'') kong_content = (w', Inr u)"
    by (simp add: create_docker_compose_def create_kong_config_def)
  from write_text_result [OF this] w1 t show ?thesis by simp
qed

lemma create_docker_compose_ok:
  assumes "\<forall>k. Port k \<in> set docker_compose_template \<longrightarrow> k \<in> fst ` set (cfg_ports c)"
    and "fs w (path_join p ''docker-compose.yml'') \<noteq> Some Dir"
    and "fs w (path_join p ''kong.yml'') \<noteq> Some Dir"
  shows "\<exists>w'. create_docker_compose w p n c = (w', Inr ())"
proof -
  from render_total [OF assms(1)] obtain t where t: "render n c docker_compose_template = Inr t" by blast
  let ?w1 = "w\<lparr>fs := (fs w)(path_join p ''docker-compose.yml'' \<mapsto> File t)\<rparr>"
  from assms(2) have a: "write_text w (path_join p ''docker-compose.yml'') t = (?w1, Inr ())"
    by (rule write_text_ok)
  from assms(3) have "fs ?w1 (path_join p ''kong.yml'') \<noteq> Some Dir"
    by (simp add: kong_not_compose)
  from write_text_ok [OF this] t a show ?thesis
    by (simp add: create_docker_compose_def create_kong_config_def)
qed

text \<open>
  Claim C8. Two runs of \<open>create_docker_compose\<close> with the same project path, project
  name and configuration, from any two hosts (the second may be the host the first run
  left), that both succeed write the same text to \<open>docker-compose.yml\<close>, the rendering
  of the template for that name and configuration, and the same fixed text to
  \<open>kong.yml\<close>: the output depends on nothing but the arguments.
\<close>

theorem create_docker_compose_deterministic:
  assumes "create_docker_compose w1 project_path project_name config = (w1', Inr u1)"
    and "create_docker_compose w2 project_path project_name config = (w2', Inr u2)"
  shows "\<exists>t. render project_name config docker_compose_template = Inr t \<and>
             fs w1' (path_join project_path ''docker-compose.yml'') = Some (File t) \<and>
             fs w2' (path_join project_path ''docker-compose.yml'') = Some (File t) \<and>
             fs w1' (path_join project_path ''kong.yml'') = Some (File kong_content) \<and>
             fs w2' (path_join project_path ''kong.yml'') = Some (File kong_content)"
proof -
  from create_docker_compose_result [OF assms(1)] obtain t where
    t: "render project_name config docker_compose_template = Inr t"
    and a: "w1' = w1\<lparr>fs := (fs w1)(path_join project_path ''docker-compose.yml'' \<mapsto> File t,
                                 path_join project_path ''kong.yml'' \<mapsto> File kong_content)\<rparr>"
    by blast
  from create_docker_compose_result [OF assms(2)] t have
    b: "w2' = w2\<lparr>fs := (fs w2)(path_join project_path ''docker-compose.yml'' \<mapsto> File t,
                                 path_join project_path ''kong.yml'' \<mapsto> File kong_content)\<rparr>"
    by simp
  have "path_join project_path ''docker-compose.yml'' \<noteq> path_join project_path ''kong.yml''"
    using kong_not_compose [of project_path] by simp
  with t a b show ?thesis by simp
qed

text \<open>An instance: the topology of \<open>alpha\<close> is rendered twice in a row.\<close>

theorem create_docker_compose_deterministic_witness:
  "snd (create_docker_compose (docker_host alpha_files) ''/srv/alpha'' ''alpha'' alpha_config) = Inr () \<and>
   snd (create_docker_compose
          (fst (create_docker_compose (docker_host alpha_files) ''/srv/alpha'' ''alpha'' alpha_config))
          ''/srv/alpha'' ''alpha'' alpha_config) = Inr () \<and>
   fs (fst (create_docker_compose
          (fst (create_docker_compose (docker_host alpha_files) ''/srv/alpha'' ''alpha'' alpha_config))
          ''/srv/alpha'' ''alpha'' alpha_config)) ''/srv/alpha/docker-compose.yml'' =
   fs (fst (create_docker_compose (docker_host alpha_files) ''/srv/alpha'' ''alpha'' alpha_config))
      ''/srv/alpha/docker-compose.yml'' \<and>
   fs (fst (create_docker_compose
          (fst (create_docker_compose (docker_host alpha_files) ''/srv/alpha'' ''alpha'' alpha_config))
          ''/srv/alpha'' ''alpha'' alpha_config)) ''/srv/alpha/kong.yml'' = Some (File kong_content)"
proof -
  let ?w = "docker_host alpha_files"
  have ports: "\<forall>k. Port k \<in> set docker_compose_template \<longrightarrow> k \<in> fst ` set (cfg_ports alpha_config)"
    using template_ports by (auto simp: alpha_config_def)
  have "fs ?w (path_join ''/srv/alpha'' ''docker-compose.yml'') \<noteq> Some Dir"
    "fs ?w (path_join ''/srv/alpha'' ''kong.yml'') \<noteq> Some Dir"
    by (simp_all add: srv_alpha_files docker_host_def alpha_files_def)
  from create_docker_compose_ok [OF ports this] obtain w1 where
    one: "create_docker_compose ?w ''/srv/alpha'' ''alpha'' alpha_config = (w1, Inr ())" by blast
  from create_docker_compose_result [OF one] have
    "fs w1 (path_join ''/srv/alpha'' ''docker-compose.yml'') \<noteq> Some Dir"
    "fs w1 (path_join ''/srv/alpha'' ''kong.yml'') \<noteq> Some Dir"
    by (auto simp: srv_alpha_files)
  from create_docker_compose_ok [OF ports this] obtain w2 where
    two: "create_docker_compose w1 ''/srv/alpha'' ''alpha'' alpha_config = (w2, Inr ())" by blast
  from create_docker_compose_deterministic [OF one two] one two
  show ?thesis by (auto simp: srv_alpha_files)
qed

section \<open>Lifecycle operations: properties\<close>

text \<open>
  Claim C9. Provided the container command itself leaves the file alone, the configuration
  file of a project is the same file with the same text after \<open>start_project\<close>,
  \<open>stop_project\<close> and \<open>status_project\<close>, of this or of any other project: the only file
  the three operations write is the \<open>docker-compose.yml\<close> that \<open>start_project\<close> rewrites
  when it names the old image tag.
\<close>

theorem config_file_untouched:
  assumes "runtime_keeps E (path_join (path_join (projects_dir E) name) ''supabase_config.json'')"
  shows "fs (fst (start_project E w other)) (path_join (path_join (projects_dir E) name) ''supabase_config.json'')
           = fs w (path_join (path_join (projects_dir E) name) ''supabase_config.json'') \<and>
         fs (fst (stop_project E w other)) (path_join (path_join (projects_dir E) name) ''supabase_config.json'')
           = fs w (path_join (path_join (projects_dir E) name) ''supabase_config.json'') \<and>
         fs (fst (status_project E w other)) (path_join (path_join (projects_dir E) name) ''supabase_config.json'')
           = fs w (path_join (path_join (projects_dir E) name) ''supabase_config.json'')"
proof -
  let ?cp = "path_join (path_join (projects_dir E) name) ''supabase_config.json''"
  have "?cp \<noteq> path_join (path_join (projects_dir E) other) ''docker-compose.yml''"
    using compose_not_config [of "path_join (projects_dir E) other" "path_join (projects_dir E) name"]
    by simp
  from start_project_frame [OF assms this] stop_project_frame [OF assms] status_project_frame [OF assms]
  show ?thesis by simp
qed

text \<open>
  An instance: the topology file of \<open>alpha\<close> names the old tag and is rewritten, the
  configuration file keeps its text.
\<close>

theorem config_file_untouched_witness:
  "fs (fst (start_project (lab quiet_runtime) (docker_host alpha_files) ''alpha''))
      ''/srv/alpha/supabase_config.json'' = Some (File ''alpha: studio=3000'') \<and>
   fs (fst (stop_project (lab quiet_runtime) (docker_host alpha_files) ''alpha''))
      ''/srv/alpha/supabase_config.json'' = Some (File ''alpha: studio=3000'') \<and>
   fs (fst (status_project (lab quiet_runtime) (docker_host alpha_files) ''alpha''))
      ''/srv/alpha/supabase_config.json'' = Some (File ''alpha: studio=3000'') \<and>
   fs (migrate_gotrue (docker_host alpha_files) ''/srv/alpha/docker-compose.yml'')
      ''/srv/alpha/docker-compose.yml'' = Some (File ''image: supabase/gotrue:v2'')"
proof -
  have before: "fs (docker_host alpha_files) ''/srv/alpha/supabase_config.json'' = Some (File ''alpha: studio=3000'')"
    by (simp add: docker_host_def alpha_files_def)
  have rewrite: "fs (migrate_gotrue (docker_host alpha_files) ''/srv/alpha/docker-compose.yml'')
      ''/srv/alpha/docker-compose.yml'' = Some (File ''image: supabase/gotrue:v2'')"
    by (simp add: migrate_gotrue_def read_text_def write_text_def docker_host_def alpha_files_def)
  from config_file_untouched [of "lab quiet_runtime" "''alpha''" "docker_host alpha_files" "''alpha''",
      OF quiet_runtime_keeps]
    before rewrite
  show ?thesis by (simp add: srv_alpha srv_alpha_files)
qed

text \<open>
  Claim C10. \<open>start_project\<close>, \<open>stop_project\<close> and \<open>delete_project\<close> return a triple for
  every project name and never an exception. When the project directory does not exist,
  each returns failure with the message \<open>Project path not found\<close> and the path, and the
  host is as before: nothing was handed to the container command. \<open>create_project\<close> for
  the same name with an unknown machine size raises \<open>ValueError\<close> instead.
\<close>

theorem lifecycle_never_raises:
  "(\<exists>r. snd (start_project E w name) = Inr r) \<and>
   (\<exists>r. snd (stop_project E w name) = Inr r) \<and>
   (\<exists>r. snd (delete_project E w name) = Inr r) \<and>
   (\<not> path_exists w (path_join (projects_dir E) name) \<longrightarrow>
      start_project E w name =
        (w, Inr (False, '''', ''Project path not found: '' @ path_join (projects_dir E) name)) \<and>
      stop_project E w name =
        (w, Inr (False, '''', ''Project path not found: '' @ path_join (projects_dir E) name)) \<and>
      delete_project E w name =
        (w, Inr (False, '''', ''Project path not found: '' @ path_join (projects_dir E) name)) \<and>
      (machine_size \<notin> set valid_machine_sizes \<longrightarrow>
         create_project E A w name machine_size specs db_host db_port db_user db_password =
           (w, Inl (ValueError ''Invalid machine size. Choose from: small, medium, large, xlarge''))))"
proof -
  have a: "\<exists>r. snd (start_project E w name) = Inr r"
    by (cases "start_project_body E w name") (auto simp: start_project_def split: sum.splits)
  have b: "\<exists>r. snd (stop_project E w name) = Inr r"
    by (cases "stop_project_body E w name") (auto simp: stop_project_def split: sum.splits)
  have c: "\<exists>r. snd (delete_project E w name) = Inr r"
    by (cases "delete_project_body E w name") (auto simp: delete_project_def split: sum.splits)
  have d: "start_project E w name =
        (w, Inr (False, '''', ''Project path not found: '' @ path_join (projects_dir E) name))"
    "stop_project E w name =
        (w, Inr (False, '''', ''Project path not found: '' @ path_join (projects_dir E) name))"
    "delete_project E w name =
        (w, Inr (False, '''', ''Project path not found: '' @ path_join (projects_dir E) name))"
    if "\<not> path_exists w (path_join (projects_dir E) name)"
    using that
    by (simp_all add: start_project_def start_project_body_def stop_project_def stop_project_body_def
        delete_project_def delete_project_body_def)
  have e: "create_project E A w name machine_size specs db_host db_port db_user db_password =
           (w, Inl (ValueError ''Invalid machine size. Choose from: small, medium, large, xlarge''))"
    if "\<not> path_exists w (path_join (projects_dir E) name)" "machine_size \<notin> set valid_machine_sizes"
    using that by (simp add: create_project_def str_join_def valid_machine_sizes_def)
  from a b c d e show ?thesis by blast
qed

text \<open>An instance: no project \<open>ghost\<close> exists, and \<open>huge\<close> is no machine size.\<close>

theorem lifecycle_never_raises_witness:
  "start_project (lab quiet_runtime) (docker_host Map.empty) ''ghost'' =
     (docker_host Map.empty, Inr (False, '''', ''Project path not found: /srv/ghost'')) \<and>
   stop_project (lab quiet_runtime) (docker_host Map.empty) ''ghost'' =
     (docker_host Map.empty, Inr (False, '''', ''Project path not found: /srv/ghost'')) \<and>
   delete_project (lab quiet_runtime) (docker_host Map.empty) ''ghost'' =
     (docker_host Map.empty, Inr (False, '''', ''Project path not found: /srv/ghost'')) \<and>
   trace (fst (delete_project (lab quiet_runtime) (docker_host Map.empty) ''ghost'')) = [] \<and>
   create_project (lab quiet_runtime) calm (docker_host Map.empty) ''ghost'' ''huge'' ''2CPU/4GB RAM''
       ''192.168.1.43'' ''5432'' ''postgres'' ''your_password'' =
     (docker_host Map.empty, Inl (ValueError ''Invalid machine size. Choose from: small, medium, large, xlarge''))"
proof -
  have p: "path_join (projects_dir (lab quiet_runtime)) ''ghost'' = ''/srv/ghost''"
    by (simp add: lab_def path_join_def)
  have missing: "\<not> path_exists (docker_host Map.empty) (path_join (projects_dir (lab quiet_runtime)) ''ghost'')"
    by (simp add: path_exists_def docker_host_def)
  have size: "''huge'' \<notin> set valid_machine_sizes"
    by (simp add: valid_machine_sizes_def)
  from lifecycle_never_raises [of "lab quiet_runtime" "docker_host Map.empty" "''ghost''" "''huge''" calm
      "''2CPU/4GB RAM''" "''192.168.1.43''" "''5432''" "''postgres''" "''your_password''"] missing size
  show ?thesis by (simp add: p docker_host_def)
qed

text \<open>
  Claim C2. When the directory of the project name exists, \<open>create_project\<close> raises the
  \<open>ValueError\<close> for a name in use and returns the host as it was: no file or directory is
  created or changed, no socket is bound and no command is run. (The logger, which is
  not part of the host, has been cleared and written to by then.)
\<close>

theorem create_project_duplicate:
  assumes "path_exists w (path_join (projects_dir E) name)"
  shows "create_project E A w name machine_size specs db_host db_port db_user db_password =
           (w, Inl (ValueError (''Project '' @ quoted name @ '' already exists. Please choose a different name.'')))"
  using assms by (simp add: create_project_def)

text \<open>An instance: the directory \<open>/srv/alpha\<close> exists.\<close>

theorem create_project_duplicate_witness:
  "create_project (lab quiet_runtime) calm (docker_host alpha_files) ''alpha'' ''small'' ''2CPU/4GB RAM''
       ''192.168.1.43'' ''5432'' ''postgres'' ''your_password'' =
     (docker_host alpha_files,
      Inl (ValueError (''Project '' @ quoted ''alpha'' @ '' already exists. Please choose a different name.'')))"
proof -
  have "path_exists (docker_host alpha_files) (path_join (projects_dir (lab quiet_runtime)) ''alpha'')"
    by (simp add: srv_alpha path_exists_def docker_host_def alpha_files_def)
  from create_project_duplicate [OF this] show ?thesis .
qed

section \<open>Creating a project: properties\<close>

lemma find_available_ports_world: "fst (find_available_ports w bs) = w"
  by (simp add: find_available_ports_def allocate_loop_world)

lemma path_join_not_self: "b \<noteq> [] \<Longrightarrow> hd b \<noteq> CHR ''/'' \<Longrightarrow> path_join a b \<noteq> a"
  by (simp add: path_join_relative)

lemma base_ports_keys:
  "map fst base_ports =
     [''studio'', ''kong'', ''auth'', ''rest'', ''realtime'', ''storage'', ''meta'', ''functions'',
      ''analytics'', ''vector'']"
  by (simp add: base_ports_def)

lemma base_ports_distinct: "distinct (map fst base_ports)"
  by (simp add: base_ports_def)

lemma create_project_persisted:
  assumes run: "create_project E A w name machine_size specs db_host db_port db_user db_password = (w', Inr path)"
    and keeps: "runtime_keeps E (path_join (path_join (projects_dir E) name) ''supabase_config.json'')"
  shows "path = path_join (projects_dir E) name \<and>
         (\<exists>config. fs w' (path_join path ''supabase_config.json'') = Some (File (json_dump E config)) \<and>
            cfg_project_name config = name \<and>
            snd (find_available_ports (w\<lparr>fs := (fs w)(path \<mapsto> Dir)\<rparr>) base_ports) = Inr (cfg_ports config) \<and>
            map fst (cfg_ports config) = map fst base_ports)"
proof -
  let ?pp = "path_join (projects_dir E) name"
  let ?cp = "path_join ?pp ''supabase_config.json''"
  let ?w1 = "w\<lparr>fs := (fs w)(?pp \<mapsto> Dir)\<rparr>"
  from run have fresh: "\<not> path_exists w ?pp" and size: "machine_size \<in> set valid_machine_sizes"
    by (auto simp: create_project_def Let_def split: if_splits)
  from fresh have mk: "makedirs w ?pp = (?w1, Inr ())"
    by (simp add: makedirs_def path_exists_def)
  obtain anon_key service_key jwt_secret where keys:
    "generate_jwt_keys (jwt E) (rnd_secret A) (rnd_ref_inner A) (clock A) (new_project_ref (rnd_ref A)) =
       (anon_key, service_key, jwt_secret)"
    by (metis prod_cases3)
  obtain w2 r2 where fp: "find_available_ports ?w1 base_ports = (w2, r2)"
    by (cases "find_available_ports ?w1 base_ports")
  with find_available_ports_world [of ?w1 base_ports] have w2: "w2 = ?w1" by simp
  from run fresh size mk keys fp obtain ap where r2: "r2 = Inr ap"
    by (cases r2) (auto simp: create_project_def Let_def)
  let ?config = "\<lparr>cfg_project_name = name, cfg_project_ref = new_project_ref (rnd_ref A),
                   cfg_machine_size = machine_size, cfg_specs = specs,
                   cfg_machine_ip = get_machine_ip A,
                   cfg_db_config = \<lparr>dbc_host = db_host, dbc_port = db_port, dbc_user = db_user,
                                      dbc_password = db_password, dbc_database = name\<rparr>,
                   cfg_anon_key = anon_key, cfg_service_key = service_key,
                   cfg_jwt_secret = jwt_secret, cfg_created_at = clock_iso A,
                   cfg_ports = ap\<rparr>"
  obtain w3 r3 where wr: "write_text ?w1 ?cp (json_dump E ?config) = (w3, r3)"
    by (cases "write_text ?w1 ?cp (json_dump E ?config)")
  from run fresh size mk keys fp w2 r2 wr obtain u3 where r3: "r3 = Inr u3"
    by (cases r3) (auto simp: create_project_def Let_def)
  from write_text_result [OF wr [unfolded r3]] have f3: "fs w3 ?cp = Some (File (json_dump E ?config))"
    by simp
  obtain w4 r4 where cdc: "create_docker_compose w3 ?pp name ?config = (w4, r4)"
    by (cases "create_docker_compose w3 ?pp name ?config")
  from run fresh size mk keys fp w2 r2 wr r3 cdc obtain u4 where r4: "r4 = Inr u4"
    by (cases r4) (auto simp: create_project_def Let_def)
  from create_docker_compose_result [OF cdc [unfolded r4]] have f4: "fs w4 ?cp = fs w3 ?cp"
    using compose_not_config [of ?pp ?pp] kong_not_config [of ?pp ?pp] by auto
  obtain w5 r5 where st: "start_project E w4 name = (w5, r5)"
    by (cases "start_project E w4 name")
  have "?cp \<noteq> path_join ?pp ''docker-compose.yml''"
    using compose_not_config [of ?pp ?pp] by simp
  from start_project_frame [OF keeps this, of w4] st have f5: "fs w5 ?cp = fs w4 ?cp" by simp
  from run fresh size mk keys fp w2 r2 wr r3 cdc r4 st have res: "w' = w5" "path = ?pp"
    by (auto simp: create_project_def Let_def)
  from fp r2 have "allocate_loop ?w1 base_ports [] = (w2, Inr ap)"
    by (simp add: find_available_ports_def)
  from allocate_loop_keys [OF this base_ports_distinct] have k: "map fst ap = map fst base_ports"
    by simp
  from res f3 f4 f5 fp r2 k show ?thesis
    by (intro conjI exI [of _ ?config]) simp_all
qed

lemma create_project_fresh:
  assumes fresh: "\<not> path_exists w (path_join (projects_dir E) name)"
    and size: "machine_size \<in> set valid_machine_sizes"
    and free: "\<forall>(s, b) \<in> set base_ports. window_has_free w b"
    and files: "fs w (path_join (path_join (projects_dir E) name) ''supabase_config.json'') \<noteq> Some Dir"
      "fs w (path_join (path_join (projects_dir E) name) ''docker-compose.yml'') \<noteq> Some Dir"
      "fs w (path_join (path_join (projects_dir E) name) ''kong.yml'') \<noteq> Some Dir"
  shows "snd (create_project E A w name machine_size specs db_host db_port db_user db_password) =
           Inr (path_join (projects_dir E) name)"
proof -
  let ?pp = "path_join (projects_dir E) name"
  let ?cp = "path_join ?pp ''supabase_config.json''"
  let ?w1 = "w\<lparr>fs := (fs w)(?pp \<mapsto> Dir)\<rparr>"
  from fresh have mk: "makedirs w ?pp = (?w1, Inr ())"
    by (simp add: makedirs_def path_exists_def)
  obtain anon_key service_key jwt_secret where keys:
    "generate_jwt_keys (jwt E) (rnd_secret A) (rnd_ref_inner A) (clock A) (new_project_ref (rnd_ref A)) =
       (anon_key, service_key, jwt_secret)"
    by (metis prod_cases3)
  from free have "\<forall>(s, b) \<in> set base_ports. window_has_free ?w1 b"
    by (auto simp: window_has_free_def bindable_def)
  from allocate_loop_succeeds [OF window_has_freeD [OF this], of "[]"] obtain ap where
    al: "allocate_loop ?w1 base_ports [] = (?w1, Inr ap)" by blast
  then have fp: "find_available_ports ?w1 base_ports = (?w1, Inr ap)"
    by (simp add: find_available_ports_def)
  from allocate_loop_keys [OF al base_ports_distinct] have k: "map fst ap = map fst base_ports"
    by simp
  let ?config = "\<lparr>cfg_project_name = name, cfg_project_ref = new_project_ref (rnd_ref A),
                   cfg_machine_size = machine_size, cfg_specs = specs,
                   cfg_machine_ip = get_machine_ip A,
                   cfg_db_config = \<lparr>dbc_host = db_host, dbc_port = db_port, dbc_user = db_user,
                                      dbc_password = db_password, dbc_database = name\<rparr>,
                   cfg_anon_key = anon_key, cfg_service_key = service_key,
                   cfg_jwt_secret = jwt_secret, cfg_created_at = clock_iso A,
                   cfg_ports = ap\<rparr>"
  let ?w3 = "?w1\<lparr>fs := (fs ?w1)(?cp \<mapsto> File (json_dump E ?config))\<rparr>"
  have ne: "?cp \<noteq> ?pp" "path_join ?pp ''docker-compose.yml'' \<noteq> ?pp" "path_join ?pp ''kong.yml'' \<noteq> ?pp"
    by (simp_all add: path_join_not_self)
  from files(1) ne have "fs ?w1 ?cp \<noteq> Some Dir" by simp
  from write_text_ok [OF this] have wr: "write_text ?w1 ?cp (json_dump E ?config) = (?w3, Inr ())" .
  have "set (map fst ap) = set (map fst base_ports)" using k by simp
  then have "fst ` set ap = set (map fst base_ports)" by simp
  with template_ports have ports: "\<forall>k. Port k \<in> set docker_compose_template \<longrightarrow> k \<in> fst ` set (cfg_ports ?config)"
    by simp
  have "fs ?w3 (path_join ?pp ''docker-compose.yml'') \<noteq> Some Dir"
    "fs ?w3 (path_join ?pp ''kong.yml'') \<noteq> Some Dir"
    using files(2,3) ne compose_not_config [of ?pp ?pp] kong_not_config [of ?pp ?pp] by auto
  from create_docker_compose_ok [OF ports this] obtain w4 where
    cdc: "create_docker_compose ?w3 ?pp name ?config = (w4, Inr ())" by blast
  obtain w5 r5 where st: "start_project E w4 name = (w5, r5)"
    by (cases "start_project E w4 name")
  from fresh size mk keys fp wr cdc st show ?thesis
    by (simp add: create_project_def Let_def)
qed

text \<open>
  When the port allocation raises, \<open>create_project\<close> raises \<open>ValueError\<close> with the
  directory created and nothing else: no configuration is written.
\<close>

lemma create_project_port_failure:
  assumes "\<not> path_exists w (path_join (projects_dir E) name)"
    and "machine_size \<in> set valid_machine_sizes"
    and "find_available_ports (w\<lparr>fs := (fs w)(path_join (projects_dir E) name \<mapsto> Dir)\<rparr>) base_ports =
           (w\<lparr>fs := (fs w)(path_join (projects_dir E) name \<mapsto> Dir)\<rparr>, Inl e)"
  shows "create_project E A w name machine_size specs db_host db_port db_user db_password =
           (w\<lparr>fs := (fs w)(path_join (projects_dir E) name \<mapsto> Dir)\<rparr>,
            Inl (ValueError (''Port allocation failed: '' @ exn_str e)))"
proof -
  let ?pp = "path_join (projects_dir E) name"
  from assms(1) have mk: "makedirs w ?pp = (w\<lparr>fs := (fs w)(?pp \<mapsto> Dir)\<rparr>, Inr ())"
    by (simp add: makedirs_def path_exists_def)
  obtain anon_key service_key jwt_secret where keys:
    "generate_jwt_keys (jwt E) (rnd_secret A) (rnd_ref_inner A) (clock A) (new_project_ref (rnd_ref A)) =
       (anon_key, service_key, jwt_secret)"
    by (metis prod_cases3)
  from assms mk keys show ?thesis
    by (simp add: create_project_def Let_def)
qed

lemma digit_chars:
  "char_of (48 :: nat) = CHR ''0''" "char_of (49 :: nat) = CHR ''1''" "char_of (50 :: nat) = CHR ''2''"
  "char_of (51 :: nat) = CHR ''3''" "char_of (52 :: nat) = CHR ''4''" "char_of (53 :: nat) = CHR ''5''"
  "char_of (54 :: nat) = CHR ''6''" "char_of (55 :: nat) = CHR ''7''" "char_of (56 :: nat) = CHR ''8''"
  "char_of (57 :: nat) = CHR ''9''"
  by code_simp+

lemma str_int_ports:
  "str_int 3000 = ''3000''" "str_int 8000 = ''8000''" "str_int 9999 = ''9999''"
  "str_int 3001 = ''3001''" "str_int 4000 = ''4000''" "str_int 5000 = ''5000''"
  "str_int 8080 = ''8080''" "str_int 54321 = ''54321''" "str_int 4001 = ''4001''"
  "str_int 9001 = ''9001''"
  by (simp_all add: str_int_def digit_chars)

lemma window_has_free_base: "bindable w b \<Longrightarrow> window_has_free w b"
  unfolding window_has_free_def bindable_def by (auto intro: bexI [of _ b])

lemma base_ports_all_free:
  assumes "occupied w = {}"
  shows "\<forall>(s, b) \<in> set base_ports. window_has_free w b"
proof -
  have "window_has_free w b" if "0 \<le> b" "b \<le> 65535" for b
    using that assms by (intro window_has_free_base) (simp add: bindable_def)
  then show ?thesis by (simp add: base_ports_def)
qed

lemma find_available_ports_idle:
  assumes "occupied w = {}"
  shows "find_available_ports w base_ports = (w, Inr base_ports)"
proof -
  have "probe w s p p = (w, Inr p)" if "0 \<le> p" "p \<le> 65535" for s p
    using that assms by (intro probe_free) (simp add: bindable_def)
  then show ?thesis by (simp add: find_available_ports_def base_ports_def)
qed

text \<open>
  Claim C4, as the code has it. After a \<open>create_project\<close> that returned (the container
  command leaving the file alone), the configuration file holds the dump of a
  configuration whose \<open>ports\<close> has exactly ten entries, one for each of the services
  \<open>studio\<close>, \<open>kong\<close>, \<open>auth\<close>, \<open>rest\<close>, \<open>realtime\<close>, \<open>storage\<close>, \<open>meta\<close>,
  \<open>functions\<close>, \<open>analytics\<close> and \<open>vector\<close>, in this order.
\<close>

theorem create_project_ports:
  assumes "create_project E A w name machine_size specs db_host db_port db_user db_password = (w', Inr path)"
    and "runtime_keeps E (path_join (path_join (projects_dir E) name) ''supabase_config.json'')"
  shows "\<exists>config. fs w' (path_join path ''supabase_config.json'') = Some (File (json_dump E config)) \<and>
           map fst (cfg_ports config) =
             [''studio'', ''kong'', ''auth'', ''rest'', ''realtime'', ''storage'', ''meta'', ''functions'',
              ''analytics'', ''vector''] \<and>
           length (cfg_ports config) = 10 \<and> distinct (map fst (cfg_ports config))"
proof -
  from create_project_persisted [OF assms] obtain config where
    c: "fs w' (path_join path ''supabase_config.json'') = Some (File (json_dump E config))"
    and k: "map fst (cfg_ports config) = map fst base_ports" by blast
  from k have "length (cfg_ports config) = length base_ports" by (metis length_map)
  with c k show ?thesis
    by (intro exI [of _ config]) (simp add: base_ports_keys base_ports_def)
qed

text \<open>An instance: port 3000 is taken and no container command is installed.\<close>

theorem create_project_ports_witness:
  "\<exists>w' config.
     create_project (lab quiet_runtime) calm (bare_host {3000}) ''alpha'' ''medium'' ''4CPU/8GB RAM''
        ''localhost'' ''5432'' ''postgres'' ''postgres'' = (w', Inr ''/srv/alpha'') \<and>
     fs w' ''/srv/alpha/supabase_config.json'' = Some (File (toy_dump config)) \<and>
     map fst (cfg_ports config) =
       [''studio'', ''kong'', ''auth'', ''rest'', ''realtime'', ''storage'', ''meta'', ''functions'',
        ''analytics'', ''vector''] \<and>
     length (cfg_ports config) = 10"
proof -
  let ?E = "lab quiet_runtime" and ?w = "bare_host {3000}"
  let ?run = "create_project ?E calm ?w ''alpha'' ''medium'' ''4CPU/8GB RAM''
        ''localhost'' ''5432'' ''postgres'' ''postgres''"
  have fresh: "\<not> path_exists ?w (path_join (projects_dir ?E) ''alpha'')"
    by (simp add: path_exists_def bare_host_def)
  have size: "''medium'' \<in> set valid_machine_sizes" by (simp add: valid_machine_sizes_def)
  have files: "fs ?w p \<noteq> Some Dir" for p by (simp add: bare_host_def)
  have "bindable ?w 3001" by (simp add: bindable_def bare_host_def)
  then have studio: "window_has_free ?w 3000"
    unfolding window_has_free_def by (auto intro: bexI [of _ 3001])
  have "window_has_free ?w b" if "0 \<le> b" "b \<le> 65535" "b \<noteq> 3000" for b
    using that by (intro window_has_free_base) (simp add: bindable_def bare_host_def)
  with studio have free: "\<forall>(s, b) \<in> set base_ports. window_has_free ?w b"
    by (simp add: base_ports_def)
  from create_project_fresh [OF fresh size free files files files]
  have ok: "snd ?run = Inr ''/srv/alpha''" by (simp add: srv_alpha)
  obtain w' where run: "?run = (w', Inr ''/srv/alpha'')"
    using ok by (cases ?run) simp
  from create_project_ports [OF run quiet_runtime_keeps] run
  show ?thesis by (auto simp: srv_alpha_files lab_def)
qed

text \<open>
  Claim C4 as stated fails: on an idle host the configuration file written for \<open>alpha\<close>
  lists ten services, not nine.
\<close>

theorem create_project_ten_ports:
  "snd (create_project (lab quiet_runtime) calm (docker_host Map.empty) ''alpha'' ''small'' ''2CPU/4GB RAM''
          ''192.168.1.43'' ''5432'' ''postgres'' ''your_password'') = Inr ''/srv/alpha'' \<and>
   fs (fst (create_project (lab quiet_runtime) calm (docker_host Map.empty) ''alpha'' ''small'' ''2CPU/4GB RAM''
          ''192.168.1.43'' ''5432'' ''postgres'' ''your_password'')) ''/srv/alpha/supabase_config.json'' =
     Some (File ''alpha: studio=3000 kong=8000 auth=9999 rest=3001 realtime=4000 storage=5000 meta=8080 functions=54321 analytics=4001 vector=9001'')"
proof -
  let ?E = "lab quiet_runtime" and ?w = "docker_host Map.empty"
  let ?run = "create_project ?E calm ?w ''alpha'' ''small'' ''2CPU/4GB RAM''
          ''192.168.1.43'' ''5432'' ''postgres'' ''your_password''"
  have fresh: "\<not> path_exists ?w (path_join (projects_dir ?E) ''alpha'')"
    by (simp add: path_exists_def docker_host_def)
  have size: "''small'' \<in> set valid_machine_sizes" by (simp add: valid_machine_sizes_def)
  have idle: "occupied ?w = {}" by (simp add: docker_host_def)
  have files: "fs ?w p \<noteq> Some Dir" for p by (simp add: docker_host_def)
  from create_project_fresh [OF fresh size base_ports_all_free [OF idle] files files files]
  have ok: "snd ?run = Inr ''/srv/alpha''" by (simp add: srv_alpha)
  obtain w' where run: "?run = (w', Inr ''/srv/alpha'')"
    using ok by (cases ?run) simp
  from create_project_persisted [OF run quiet_runtime_keeps] obtain config where
    c: "fs w' (path_join ''/srv/alpha'' ''supabase_config.json'') = Some (File (json_dump ?E config))"
    and n: "cfg_project_name config = ''alpha''"
    and p: "snd (find_available_ports (?w\<lparr>fs := (fs ?w)(''/srv/alpha'' \<mapsto> Dir)\<rparr>) base_ports) = Inr (cfg_ports config)"
    by blast
  have "occupied (?w\<lparr>fs := (fs ?w)(''/srv/alpha'' \<mapsto> Dir)\<rparr>) = {}" by (simp add: docker_host_def)
  from find_available_ports_idle [OF this] p have ports: "cfg_ports config = base_ports" by simp
  have "json_dump ?E config = toy_dump config" by (simp add: lab_def)
  also have "\<dots> = ''alpha: studio=3000 kong=8000 auth=9999 rest=3001 realtime=4000 storage=5000 meta=8080 functions=54321 analytics=4001 vector=9001''"
    by (simp add: toy_dump_def n ports base_ports_def str_int_ports)
  finally show ?thesis using c run by (simp add: srv_alpha_files)
qed

end
